theory Spec2Isabelle
  imports Main
begin

section \<open>Common vocabulary: errors and HTTP outcomes\<close>

text \<open>
  The worker is a Node.js program. Exceptions are values of \<open>js_error\<close>; a function
  that may throw returns \<open>js_error + 'a\<close> with \<open>Inl\<close> for the thrown error.
\<close>

datatype js_error = Error string | TypeError string | ReferenceError string

text \<open>
  What the network does to one HTTP request: the socket reports an error, the request
  times out, or a response arrives with a status code and a body. The body is \<open>None\<close>
  when \<open>JSON.parse\<close> throws on it (or when reading a field of the parsed value throws),
  otherwise it carries the \<open>success\<close> flag and the rest of the parsed object.
\<close>

datatype 'a http_outcome =
    RequestError
  | RequestTimeout
  | Response int "(bool \<times> 'a) option"

text \<open>\<open>makeApiRequest\<close> of utils/cooldown-api.js: resolves only on status 200 with a
  truthy \<open>success\<close>, rejects in every other case.\<close>

fun makeApiRequest :: "'a http_outcome \<Rightarrow> js_error + 'a" where
  "makeApiRequest RequestError = Inl (Error ''API request failed'')"
| "makeApiRequest RequestTimeout = Inl (Error ''API request timeout'')"
| "makeApiRequest (Response status None) = Inl (Error ''Failed to parse API response'')"
| "makeApiRequest (Response status (Some (success, parsed))) =
     (if status = 200 \<and> success then Inr parsed else Inl (Error ''API error''))"

section \<open>Cooldown store (utils/cooldown-api.js)\<close>

record cooldown_state =
  lastBanTime :: int
  totalBanCount :: int
  cooldownLevel :: int

definition zero_state :: cooldown_state where
  "zero_state = \<lparr>lastBanTime = 0, totalBanCount = 0, cooldownLevel = 0\<rparr>"

text \<open>The local fallback file: absent, not parsable as JSON, or holding a state (the
  \<open>timestamp\<close> field written beside the state is never read back and is left out).\<close>

datatype file_content = NoFile | Corrupt | FileState cooldown_state

datatype http_method = GET | POST | DELETE

text \<open>
  \<open>CooldownStateManager\<close>. \<open>useRedis\<close> and the fallback file are the fields of the
  class; \<open>remoteCalls\<close> is a history of the requests this instance has sent to the
  cooldown API, oldest first, kept so that "makes no remote call" can be stated.
\<close>

record cooldown_store =
  useRedis :: bool
  fallbackFile :: file_content
  remoteCalls :: "http_method list"

definition new_store :: "file_content \<Rightarrow> cooldown_store" where
  "new_store f = \<lparr>useRedis = True, fallbackFile = f, remoteCalls = []\<rparr>"

definition load_from_file :: "bool \<Rightarrow> cooldown_store \<Rightarrow> cooldown_state" where
  "load_from_file fs_throws s =
     (if fs_throws then zero_state
      else case fallbackFile s of
             NoFile \<Rightarrow> zero_state
           | Corrupt \<Rightarrow> zero_state
           | FileState st \<Rightarrow> st)"

text \<open>
  \<open>load()\<close>. The first argument is what the network does to the GET request (parsed
  body: \<open>None\<close> for \<open>found = false\<close>, \<open>Some st\<close> for a found state); it is consulted
  only when the request is sent. The second says whether the file system call throws.
\<close>

definition load :: "cooldown_state option http_outcome \<Rightarrow> bool \<Rightarrow> cooldown_store
                      \<Rightarrow> cooldown_state \<times> cooldown_store" where
  "load reply fs_throws s =
     (if useRedis s then
        (let s1 = s\<lparr>remoteCalls := remoteCalls s @ [GET]\<rparr> in
         case makeApiRequest reply of
           Inr (Some st) \<Rightarrow> (st, s1)
         | Inr None \<Rightarrow> (zero_state, s1)
         | Inl e \<Rightarrow> (let s2 = s1\<lparr>useRedis := False\<rparr> in (load_from_file fs_throws s2, s2)))
      else (load_from_file fs_throws s, s))"

text \<open>\<open>save(state)\<close>: the remote write when \<open>useRedis\<close>, then always the file.\<close>

definition save :: "unit http_outcome \<Rightarrow> bool \<Rightarrow> cooldown_state \<Rightarrow> cooldown_store
                      \<Rightarrow> cooldown_store" where
  "save reply fs_throws st s =
     (let s1 = (if useRedis s then
                  (let s0 = s\<lparr>remoteCalls := remoteCalls s @ [POST]\<rparr> in
                   case makeApiRequest reply of
                     Inr u \<Rightarrow> s0
                   | Inl e \<Rightarrow> s0\<lparr>useRedis := False\<rparr>)
                else s)
      in if fs_throws then s1 else s1\<lparr>fallbackFile := FileState st\<rparr>)"

text \<open>\<open>clear()\<close>: the remote delete when \<open>useRedis\<close> (a failure is logged and nothing
  else), then the file.\<close>

definition clear :: "unit http_outcome \<Rightarrow> bool \<Rightarrow> cooldown_store \<Rightarrow> cooldown_store" where
  "clear reply fs_throws s =
     (let s1 = (if useRedis s then
                  (let s0 = s\<lparr>remoteCalls := remoteCalls s @ [DELETE]\<rparr> in
                   case makeApiRequest reply of
                     Inr u \<Rightarrow> s0
                   | Inl e \<Rightarrow> s0)
                else s)
      in if fs_throws then s1 else s1\<lparr>fallbackFile := NoFile\<rparr>)"

text \<open>A later part of the process is any sequence of store operations, each with the
  network and file-system behaviour it meets.\<close>

datatype store_op =
    OpLoad "cooldown_state option http_outcome" bool
  | OpSave "unit http_outcome" bool cooldown_state
  | OpClear "unit http_outcome" bool

fun apply_store_op :: "store_op \<Rightarrow> cooldown_store \<Rightarrow> cooldown_store" where
  "apply_store_op (OpLoad reply fs_throws) s = snd (load reply fs_throws s)"
| "apply_store_op (OpSave reply fs_throws st) s = save reply fs_throws st s"
| "apply_store_op (OpClear reply fs_throws) s = clear reply fs_throws s"

fun run_store_ops :: "store_op list \<Rightarrow> cooldown_store \<Rightarrow> cooldown_store" where
  "run_store_ops [] s = s"
| "run_store_ops (x # xs) s = run_store_ops xs (apply_store_op x s)"

section \<open>The worker: FilterService and ConnectionManager\<close>

text \<open>
  \<open>makeQueueApiRequest\<close> of workers/filter-service.js, the same decision as
  \<open>makeApiRequest\<close> with its own messages.
\<close>

fun makeQueueApiRequest :: "'a http_outcome \<Rightarrow> js_error + 'a" where
  "makeQueueApiRequest RequestError = Inl (Error ''Queue API request failed'')"
| "makeQueueApiRequest RequestTimeout = Inl (Error ''Queue API request timeout'')"
| "makeQueueApiRequest (Response status None) =
     Inl (Error ''Failed to parse queue API response'')"
| "makeQueueApiRequest (Response status (Some (success, parsed))) =
     (if status = 200 \<and> success then Inr parsed else Inl (Error ''Queue API error''))"

record work_item =
  item_id :: string
  username :: string

text \<open>The settings of \<open>CONFIG\<close> that the functions below read (milliseconds and
  counts).\<close>

record config =
  CLAIM_BATCH_SIZE :: nat
  EMPTY_QUEUE_DELAY :: nat
  ERROR_DELAY :: nat
  MAX_RETRIES :: nat
  MAX_CONSECUTIVE_TIMEOUTS :: nat
  GC_CONNECTION_TIMEOUT :: nat

definition CONFIG :: config where
  "CONFIG = \<lparr>CLAIM_BATCH_SIZE = 10, EMPTY_QUEUE_DELAY = 10000, ERROR_DELAY = 5000,
             MAX_RETRIES = 3, MAX_CONSECUTIVE_TIMEOUTS = 10, GC_CONNECTION_TIMEOUT = 120000\<rparr>"

text \<open>
  What the worker does to its collaborators, in the order it does it. Queue requests
  carry whether the request succeeded (\<open>makeQueueApiRequest\<close> resolved). Writing to the
  log files is not recorded.
\<close>

datatype effect =
    QueueClaim
  | QueueComplete "string list" bool
  | QueueRelease "string list" bool
  | ProcessorAdd string string bool
  | MarkProcessed string
  | ProfileRequest string
  | Sleep nat
  | GamesPlayed
  | LogOn
  | LogOff

text \<open>Work that is started and left to run on its own (the processing loop), and
  callbacks handed to \<open>setTimeout\<close> with their delay.\<close>

datatype task = ProcessQueue | StartRecovery

text \<open>
  \<open>failureStats\<close> is a plain object used as a dictionary. Its own properties are a
  map from keys to numbers, \<open>NaN\<close> among them; reading a key it does not own finds
  what every object inherits under the names below, and \<open>undefined\<close> under any other.
\<close>

datatype js_number = Num nat | NaN

definition Object_prototype_names :: "string list" where
  "Object_prototype_names =
     [''constructor'', ''__defineGetter__'', ''__defineSetter__'', ''hasOwnProperty'',
      ''__lookupGetter__'', ''__lookupSetter__'', ''isPrototypeOf'',
      ''propertyIsEnumerable'', ''toString'', ''valueOf'', ''__proto__'',
      ''toLocaleString'']"

text \<open>
  \<open>if (!stats[k]) stats[k] = 0; stats[k]++\<close>. An own number goes up by one, an own
  \<open>NaN\<close> (falsy) starts again at 1, and a missing key starts at 1 unless the name is
  inherited: the inherited value is truthy and not a number, so the increment stores
  \<open>NaN\<close> (and stores nothing under \<open>__proto__\<close>, whose setter ignores a number).
\<close>

definition count_failure :: "string \<Rightarrow> (string \<rightharpoonup> js_number) \<Rightarrow> (string \<rightharpoonup> js_number)" where
  "count_failure k stats =
     (case stats k of
        Some (Num n) \<Rightarrow> stats(k \<mapsto> Num (n + 1))
      | Some NaN \<Rightarrow> stats(k \<mapsto> Num 1)
      | None \<Rightarrow>
          if k \<in> set Object_prototype_names
          then (if k = ''__proto__'' then stats else stats(k \<mapsto> NaN))
          else stats(k \<mapsto> Num 1))"

text \<open>
  One worker: a \<open>FilterService\<close> and the \<open>ConnectionManager\<close> it creates refer to each
  other and live together, so one record holds the fields of both. The three cooldown
  fields of the connection manager are those of the persisted state, which the record
  extends so that they keep their names. \<open>steamID\<close> stands for
  \<open>steamClient.steamID\<close> being set (logged on). \<open>currentSteamID\<close> is read by the
  connection manager and never assigned by the filter service. \<open>effects\<close>,
  \<open>started\<close> and \<open>timeouts\<close> are histories, oldest first.
\<close>

record worker = cooldown_state +
  gcConnectionAttempts :: nat
  lastGcConnectionTime :: int
  connectionTimer :: "nat option"
  recoveryInProgress :: bool
  cooldownStateManager :: cooldown_store
  running :: bool
  processingActive :: bool
  currentBatch :: "work_item list"
  currentItem :: "work_item option"
  currentSteamID :: "work_item option"
  failureStats :: "string \<rightharpoonup> js_number"
  requestCount :: nat
  consecutiveTimeouts :: nat
  lastSuccessTime :: int
  isBanned :: bool
  banEndTime :: "int option"
  steamID :: bool
  conf :: config
  effects :: "effect list"
  started :: "task list"
  timeouts :: "(nat \<times> task) list"

text \<open>
  What the outside world does during one operation of the worker: the clock readings,
  the outcome of each HTTP request by the place that sends it, the outcome of each
  profile request and each marker request by attempt number, the random processing
  delay, and whether the file system or \<open>gamesPlayed\<close> throws.
\<close>

datatype profile_data = ProfileData "int list" int int int

datatype fetch_outcome = InvalidSteamID | FetchTimeout | ProfileReply "profile_data option"

record env =
  now :: int
  shutdown_now :: int
  claim_reply :: "work_item list option http_outcome"
  fetch :: "nat \<Rightarrow> fetch_outcome"
  mark_reply :: "nat \<Rightarrow> unit http_outcome"
  add_reply :: "unit http_outcome"
  complete_reply :: "unit http_outcome"
  release_reply :: "unit http_outcome"
  stop_batch_reply :: "unit http_outcome"
  stop_item_reply :: "unit http_outcome"
  save_reply :: "unit http_outcome"
  save_fs_throws :: bool
  gamesPlayed_throws :: bool
  processing_delay :: nat

definition COOLDOWN_LEVELS :: "int list" where
  "COOLDOWN_LEVELS = [0, 30, 60, 120, 240, 480]"

text \<open>\<open>COOLDOWN_LEVELS[i]\<close>: \<open>undefined\<close> outside the table.\<close>

definition level_minutes :: "int \<Rightarrow> int option" where
  "level_minutes i =
     (if 0 \<le> i \<and> i < int (length COOLDOWN_LEVELS) then Some (COOLDOWN_LEVELS ! nat i)
      else None)"

definition sleep :: "nat \<Rightarrow> worker \<Rightarrow> worker" where
  "sleep ms s = s\<lparr>effects := effects s @ [Sleep ms]\<rparr>"

text \<open>Methods that each class defines; calling any other name on an instance throws a
  \<open>TypeError\<close> (\<open>x.f is not a function\<close>).\<close>

definition ConnectionManager_methods :: "string list" where
  "ConnectionManager_methods =
     [''reset'', ''loadCooldownState'', ''saveCooldownState'', ''startConnectionTimer'',
      ''clearConnectionTimer'', ''onGcConnected'', ''onGcDisconnected'', ''onSteamError'',
      ''handleConnectionTimeout'', ''startRecovery'', ''attemptSimpleGcReconnection'',
      ''handleBanDetected'', ''performCleanShutdown'', ''delay'', ''getCooldownInfo'',
      ''getStatus'', ''resetCooldown'', ''setCooldownLevel'']"

definition FilterService_methods :: "string list" where
  "FilterService_methods =
     [''loadConfig'', ''loadMaFile'', ''setupEventHandlers'', ''login'', ''start'',
      ''startProcessing'', ''processQueue'', ''claimBatchFromQueue'',
      ''completeInFilterQueue'', ''releaseToFilterQueue'', ''addToProcessorQueue'',
      ''processSteamIDWithRetries'', ''fetchAndCheckProfile'', ''checkProfile'',
      ''getStats'', ''stop'', ''isRunning'']"

definition method_lookup :: "string list \<Rightarrow> string \<Rightarrow> js_error + unit" where
  "method_lookup methods name =
     (if name \<in> set methods then Inr () else Inl (TypeError name))"

subsection \<open>FilterService: queue requests and stop\<close>

definition completeInFilterQueue :: "unit http_outcome \<Rightarrow> string list \<Rightarrow> worker \<Rightarrow> worker" where
  "completeInFilterQueue reply itemIds s =
     (case makeQueueApiRequest reply of
        Inr u \<Rightarrow> s\<lparr>effects := effects s @ [QueueComplete itemIds True]\<rparr>
      | Inl e \<Rightarrow> s\<lparr>effects := effects s @ [QueueComplete itemIds False]\<rparr>)"

definition releaseToFilterQueue :: "unit http_outcome \<Rightarrow> string list \<Rightarrow> worker \<Rightarrow> worker" where
  "releaseToFilterQueue reply itemIds s =
     (case makeQueueApiRequest reply of
        Inr u \<Rightarrow> s\<lparr>effects := effects s @ [QueueRelease itemIds True]\<rparr>
      | Inl e \<Rightarrow> s\<lparr>effects := effects s @ [QueueRelease itemIds False]\<rparr>)"

text \<open>\<open>addToProcessorQueue\<close> logs a failure and throws it again: the result is the
  exception thrown, if any, and the state with the request recorded.\<close>

definition addToProcessorQueue :: "unit http_outcome \<Rightarrow> string \<Rightarrow> string \<Rightarrow> worker
                                     \<Rightarrow> js_error option \<times> worker" where
  "addToProcessorQueue reply sid uname s =
     (case makeQueueApiRequest reply of
        Inr u \<Rightarrow> (None, s\<lparr>effects := effects s @ [ProcessorAdd sid uname True]\<rparr>)
      | Inl e \<Rightarrow> (Some e, s\<lparr>effects := effects s @ [ProcessorAdd sid uname False]\<rparr>))"

definition claimBatchFromQueue :: "work_item list option http_outcome \<Rightarrow> worker
                                     \<Rightarrow> work_item list \<times> worker" where
  "claimBatchFromQueue reply s =
     (let s1 = s\<lparr>effects := effects s @ [QueueClaim]\<rparr> in
      case makeQueueApiRequest reply of
        Inr (Some its) \<Rightarrow> (its, s1)
      | Inr None \<Rightarrow> ([], s1)
      | Inl e \<Rightarrow> ([], s1))"

definition clearConnectionTimer :: "worker \<Rightarrow> worker" where
  "clearConnectionTimer s = s\<lparr>connectionTimer := None\<rparr>"

text \<open>
  \<open>stop()\<close>. The two release requests are sent from inside \<open>stop\<close> and not awaited;
  the recorded outcome is what the queue server later answers.
\<close>

definition stop :: "env \<Rightarrow> worker \<Rightarrow> worker" where
  "stop e s =
     (if \<not> running s then s
      else
        let s1 = clearConnectionTimer (s\<lparr>running := False, processingActive := False\<rparr>);
            s2 = (if currentBatch s1 \<noteq> []
                  then releaseToFilterQueue (stop_batch_reply e) (map item_id (currentBatch s1)) s1
                  else s1);
            s3 = (case currentItem s2 of
                    Some it \<Rightarrow> releaseToFilterQueue (stop_item_reply e) [item_id it] s2
                  | None \<Rightarrow> s2)
        in if steamID s3 then s3\<lparr>effects := effects s3 @ [LogOff]\<rparr> else s3)"

subsection \<open>ConnectionManager\<close>

definition reset :: "worker \<Rightarrow> worker" where
  "reset s = s\<lparr>gcConnectionAttempts := 0, lastGcConnectionTime := 0,
               connectionTimer := None, recoveryInProgress := False\<rparr>"

text \<open>\<open>saveCooldownState()\<close> is called without \<open>await\<close>; only the store is touched by
  it, so the model runs it where it is called.\<close>

definition saveCooldownState :: "env \<Rightarrow> worker \<Rightarrow> worker" where
  "saveCooldownState e s =
     s\<lparr>cooldownStateManager :=
         save (save_reply e) (save_fs_throws e)
           \<lparr>lastBanTime = lastBanTime s, totalBanCount = totalBanCount s,
            cooldownLevel = cooldownLevel s\<rparr>
           (cooldownStateManager s)\<rparr>"

text \<open>\<open>loadCooldownState()\<close>, given what the network answers to the GET request and
  whether reading the file throws.\<close>

definition loadCooldownState :: "cooldown_state option http_outcome \<Rightarrow> bool \<Rightarrow> worker \<Rightarrow> worker" where
  "loadCooldownState reply file_fails s =
     (let (state, st) = load reply file_fails (cooldownStateManager s)
      in s\<lparr>lastBanTime := lastBanTime state, totalBanCount := totalBanCount state,
           cooldownLevel := cooldownLevel state, cooldownStateManager := st\<rparr>)"

definition startConnectionTimer :: "worker \<Rightarrow> worker" where
  "startConnectionTimer s =
     (let s1 = clearConnectionTimer s;
          ms = (if GC_CONNECTION_TIMEOUT (conf s1) = 0 then 120000
                else GC_CONNECTION_TIMEOUT (conf s1))
      in s1\<lparr>connectionTimer := Some ms\<rparr>)"

definition onGcConnected :: "env \<Rightarrow> worker \<Rightarrow> worker" where
  "onGcConnected e s =
     (let s1 = (clearConnectionTimer s)\<lparr>lastGcConnectionTime := now e\<rparr>;
          s2 = (if cooldownLevel s1 > 0 then saveCooldownState e (s1\<lparr>cooldownLevel := 0\<rparr>)
                else s1)
      in reset s2)"

definition onGcDisconnected :: "worker \<Rightarrow> worker" where
  "onGcDisconnected s =
     (let s1 = clearConnectionTimer s in
      if \<not> recoveryInProgress s1
      then s1\<lparr>timeouts := timeouts s1 @ [(5000, StartRecovery)]\<rparr>
      else s1)"

definition onSteamError :: "worker \<Rightarrow> worker" where
  "onSteamError s =
     (let s1 = clearConnectionTimer s in
      if \<not> recoveryInProgress s1
      then s1\<lparr>timeouts := timeouts s1 @ [(10000, StartRecovery)]\<rparr>
      else s1)"

text \<open>
  \<open>performCleanShutdown(cooldownHours)\<close>. The argument is kept in minutes
  (\<open>None\<close> for \<open>undefined\<close>); hours times 3600000 is minutes times 60000.
  \<open>returnToQueue\<close> is not a method of \<open>FilterService\<close>, so the branch that would call
  it throws, and the \<open>catch\<close> block stops the service and marks it banned.
\<close>

definition performCleanShutdown :: "env \<Rightarrow> int option \<Rightarrow> worker \<Rightarrow> worker" where
  "performCleanShutdown e cooldownMinutes s =
     (case (if currentSteamID s \<noteq> None then method_lookup FilterService_methods ''returnToQueue''
            else Inr ()) of
        Inl err \<Rightarrow> (stop e s)\<lparr>isBanned := True\<rparr>
      | Inr u \<Rightarrow>
          let s1 = clearConnectionTimer (s\<lparr>processingActive := False\<rparr>);
              s2 = (if steamID s1 then sleep 2000 (s1\<lparr>effects := effects s1 @ [LogOff]\<rparr>)
                    else s1);
              s3 = stop e s2
          in s3\<lparr>isBanned := True,
                 banEndTime := map_option (\<lambda>m. shutdown_now e + m * 60000) cooldownMinutes\<rparr>)"

definition handleBanDetected :: "env \<Rightarrow> worker \<Rightarrow> worker" where
  "handleBanDetected e s =
     (let s1 = s\<lparr>totalBanCount := totalBanCount s + 1, lastBanTime := now e\<rparr>;
          s2 = s1\<lparr>cooldownLevel := min (cooldownLevel s1 + 1) (int (length COOLDOWN_LEVELS) - 1)\<rparr>;
          cooldownMinutes = level_minutes (cooldownLevel s2);
          s3 = saveCooldownState e s2
      in performCleanShutdown e cooldownMinutes s3)"

definition attemptSimpleGcReconnection :: "env \<Rightarrow> worker \<Rightarrow> worker" where
  "attemptSimpleGcReconnection e s =
     (if \<not> steamID s then handleBanDetected e s
      else
        let s1 = sleep 5000 (s\<lparr>processingActive := False\<rparr>) in
        if gamesPlayed_throws e then handleBanDetected e s1
        else startConnectionTimer (s1\<lparr>effects := effects s1 @ [GamesPlayed]\<rparr>))"

definition handleConnectionTimeout :: "env \<Rightarrow> worker \<Rightarrow> worker" where
  "handleConnectionTimeout e s =
     (let s1 = s\<lparr>gcConnectionAttempts := gcConnectionAttempts s + 1\<rparr> in
      if gcConnectionAttempts s1 = 1 then attemptSimpleGcReconnection e s1
      else handleBanDetected e s1)"

text \<open>\<open>startRecovery()\<close>: nothing that \<open>handleConnectionTimeout\<close> calls lets an
  exception escape, so the \<open>catch\<close> block is not reached; \<open>finally\<close> clears the flag.\<close>

definition startRecovery :: "env \<Rightarrow> worker \<Rightarrow> worker" where
  "startRecovery e s =
     (if recoveryInProgress s then s
      else (handleConnectionTimeout e (s\<lparr>recoveryInProgress := True\<rparr>))
             \<lparr>recoveryInProgress := False\<rparr>)"

subsection \<open>FilterService: event handlers (setupEventHandlers)\<close>

definition startProcessing :: "worker \<Rightarrow> worker" where
  "startProcessing s =
     (if processingActive s then s
      else s\<lparr>processingActive := True, started := started s @ [ProcessQueue]\<rparr>)"

text \<open>The handler of the \<open>connectedToGC\<close> event.\<close>

definition on_connectedToGC :: "worker \<Rightarrow> worker" where
  "on_connectedToGC s =
     (let s1 = reset (clearConnectionTimer s) in
      if \<not> processingActive s1 then startProcessing s1 else s1)"

text \<open>The handler of the \<open>disconnectedFromGC\<close> event.\<close>

definition on_disconnectedFromGC :: "worker \<Rightarrow> worker" where
  "on_disconnectedFromGC s = s\<lparr>processingActive := False\<rparr>"

text \<open>The handler of the Steam client's \<open>error\<close> event calls
  \<open>connectionManager.handleConnectionError()\<close>.\<close>

definition on_steam_error :: "worker \<Rightarrow> js_error + worker" where
  "on_steam_error s =
     (case method_lookup ConnectionManager_methods ''handleConnectionError'' of
        Inl err \<Rightarrow> Inl err
      | Inr u \<Rightarrow> Inr s)"

subsection \<open>FilterService: processing one item\<close>

definition unwantedMedals :: "int list" where
  "unwantedMedals =
     [4960, 6111, 6112, 6123, 6126, 6129, 4918, 4555, 4759, 6101, 4687,
      6113, 6106, 6125, 4886, 4853, 4703, 4552, 960, 4959, 4762, 4919,
      4828, 4800, 4761, 4626, 4986, 4873, 6127, 6128, 4799, 4702, 909,
      4550, 6105, 4798, 4553, 4760, 4958, 6114, 4884, 4701, 4700, 6124,
      4885, 6130, 4690, 6115, 4691, 6131, 4887, 935, 912, 908, 902, 4552, 968,
      952, 946, 6034, 6117, 6116, 6120, 6109, 6104, 6108, 6118, 4623, 4851]"

text \<open>\<open>checkProfile\<close>: the medals shown and the three commendation counts (absent
  fields read as empty and 0) decide \<open>passedChecks\<close> and \<open>filterReason\<close>.\<close>

definition checkProfile :: "profile_data option \<Rightarrow> js_error + (bool \<times> string option)" where
  "checkProfile profile =
     (case profile of
        None \<Rightarrow> Inl (Error ''No profile data received'')
      | Some (ProfileData medals cmd_friendly cmd_teaching cmd_leader) \<Rightarrow>
          (let totalCommendations = cmd_friendly + cmd_teaching + cmd_leader in
           if totalCommendations \<ge> 100 then Inr (False, Some ''commendations >= 100'')
           else if 874 \<notin> set medals then Inr (False, Some ''missing medal 874'')
           else if length medals < 3 then Inr (False, Some ''less than 3 medals'')
           else if find (\<lambda>m. m \<in> set unwantedMedals) medals \<noteq> None
             then Inr (False, Some ''has unwanted medal'')
           else Inr (True, None)))"

text \<open>
  \<open>fetchAndCheckProfile\<close>. A request timeout counts itself and, at the configured
  threshold, calls \<open>connectionManager.handleConnectionTimeout()\<close>. The call is not
  awaited, but what it does happens while the item is still in hand: the attempt
  counter goes up, processing is switched off and, from the second timeout on, the ban
  handler stops the worker, which releases the item in hand. Its steps are run here,
  where the call is made.
\<close>

definition fetchAndCheckProfile :: "env \<Rightarrow> fetch_outcome \<Rightarrow> string \<Rightarrow> worker
                                      \<Rightarrow> (js_error + (bool \<times> string option)) \<times> worker" where
  "fetchAndCheckProfile e outcome steamID64 s =
     (case outcome of
        InvalidSteamID \<Rightarrow> (Inl (Error ''Invalid Steam ID''), s)
      | FetchTimeout \<Rightarrow>
          (let s1 = s\<lparr>effects := effects s @ [ProfileRequest steamID64]\<rparr>;
               s2 = s1\<lparr>consecutiveTimeouts := consecutiveTimeouts s1 + 1\<rparr>;
               s3 = (if consecutiveTimeouts s2 \<ge> MAX_CONSECUTIVE_TIMEOUTS (conf s2)
                     then handleConnectionTimeout e s2
                     else s2)
           in (Inl (Error ''Request timeout''), s3))
      | ProfileReply profile \<Rightarrow>
          (let s1 = s\<lparr>effects := effects s @ [ProfileRequest steamID64]\<rparr>;
               s2 = s1\<lparr>consecutiveTimeouts := 0\<rparr>
           in (checkProfile profile, s2)))"

text \<open>\<open>markSteamIdProcessed\<close> resolves with the parsed body on status 200 and
  \<open>markSteamIdProcessedWithRetries\<close> then looks at its \<open>success\<close> field.\<close>

fun markSteamIdProcessed :: "unit http_outcome \<Rightarrow> js_error + bool" where
  "markSteamIdProcessed RequestError = Inl (Error ''API request failed'')"
| "markSteamIdProcessed RequestTimeout = Inl (Error ''API request timeout'')"
| "markSteamIdProcessed (Response status None) =
     (if status = 200 then Inl (Error ''Failed to parse API response'')
      else Inl (Error ''API returned status''))"
| "markSteamIdProcessed (Response status (Some (success, u))) =
     (if status = 200 then Inr success else Inl (Error ''API returned status''))"

text \<open>The \<open>for\<close> loop of \<open>markSteamIdProcessedWithRetries\<close>: \<open>left\<close> attempts remain,
  \<open>attempt\<close> is the number of the next one.\<close>

fun mark_attempts :: "(nat \<Rightarrow> unit http_outcome) \<Rightarrow> string \<Rightarrow> nat \<Rightarrow> nat \<Rightarrow> worker
                        \<Rightarrow> bool \<times> worker" where
  "mark_attempts replies sid 0 attempt s = (False, s)"
| "mark_attempts replies sid (Suc left) attempt s =
     (let s1 = s\<lparr>effects := effects s @ [MarkProcessed sid]\<rparr> in
      case markSteamIdProcessed (replies attempt) of
        Inr True \<Rightarrow> (True, s1)
      | Inr False \<Rightarrow> mark_attempts replies sid left (attempt + 1)
                       (if left > 0 then sleep 2000 s1 else s1)
      | Inl err \<Rightarrow> mark_attempts replies sid left (attempt + 1)
                     (if left > 0 then sleep 2000 s1 else s1))"

definition markSteamIdProcessedWithRetries :: "(nat \<Rightarrow> unit http_outcome) \<Rightarrow> string \<Rightarrow> worker
                                                 \<Rightarrow> bool \<times> worker" where
  "markSteamIdProcessedWithRetries replies sid s = mark_attempts replies sid 3 1 s"

datatype process_result = Success bool "string option" | Failure "js_error option"

text \<open>The \<open>while (attempts < maxRetries)\<close> loop of \<open>processSteamIDWithRetries\<close>:
  \<open>left\<close> is \<open>maxRetries - attempts\<close>.\<close>

fun fetch_attempts :: "env \<Rightarrow> string \<Rightarrow> nat \<Rightarrow> nat \<Rightarrow> js_error option
                         \<Rightarrow> worker \<Rightarrow> process_result \<times> worker" where
  "fetch_attempts e sid 0 attempts lastError s = (Failure lastError, s)"
| "fetch_attempts e sid (Suc left) attempts lastError s =
     (case fetchAndCheckProfile e (fetch e (attempts + 1)) sid s of
        (Inr (passed, filterReason), s1) \<Rightarrow> (Success passed filterReason, s1)
      | (Inl err, s1) \<Rightarrow>
          fetch_attempts e sid left (attempts + 1) (Some err)
            (if left > 0 then sleep (ERROR_DELAY (conf s1)) s1 else s1))"

definition processSteamIDWithRetries :: "env \<Rightarrow> string \<Rightarrow> nat \<Rightarrow> worker
                                           \<Rightarrow> process_result \<times> worker" where
  "processSteamIDWithRetries e steamID64 maxRetries s =
     (let (processResult, s1) = fetch_attempts e steamID64 maxRetries 0 None s;
          (marked, s2) = markSteamIdProcessedWithRetries (mark_reply e) steamID64 s1
      in (processResult, s2))"

subsection \<open>FilterService: the processing loop\<close>

definition finish_item :: "env \<Rightarrow> worker \<Rightarrow> worker" where
  "finish_item e s = sleep (processing_delay e) (s\<lparr>currentItem := None\<rparr>)"

text \<open>
  The body of the \<open>try\<close> block of \<open>processQueue\<close> from \<open>currentBatch.shift()\<close> on.
  The result is the exception that leaves the block, if any, with the state at that
  moment: what was assigned before a throw stays assigned.
\<close>

definition process_item :: "env \<Rightarrow> worker \<Rightarrow> js_error option \<times> worker" where
  "process_item e s =
     (case currentBatch s of
        [] \<Rightarrow> (Some (TypeError ''item''), s\<lparr>currentItem := None\<rparr>)
      | item # rest \<Rightarrow>
          (let s1 = s\<lparr>currentBatch := rest, currentItem := Some item\<rparr>;
               (processResult, s2) =
                  processSteamIDWithRetries e (item_id item) (MAX_RETRIES (conf s1)) s1
           in case processResult of
                Success passed filterReason \<Rightarrow>
                  if passed then
                    (case addToProcessorQueue (add_reply e) (item_id item) (username item) s2 of
                       (Some err, s3) \<Rightarrow> (Some err, s3)
                     | (None, s3) \<Rightarrow>
                         (let s4 = completeInFilterQueue (complete_reply e) [item_id item] s3;
                              s5 = s4\<lparr>requestCount := requestCount s4 + 1,
                                      lastSuccessTime := now e, consecutiveTimeouts := 0\<rparr>
                          in (None, finish_item e s5)))
                  else
                    (let s3 = completeInFilterQueue (complete_reply e) [item_id item] s2;
                         s4 = s3\<lparr>requestCount := requestCount s3 + 1, consecutiveTimeouts := 0\<rparr>
                     in (None, finish_item e s4))
              | Failure lastError \<Rightarrow>
                  (let s3 = releaseToFilterQueue (release_reply e) [item_id item] s2;
                       s4 = s3\<lparr>failureStats := count_failure (item_id item) (failureStats s3)\<rparr>
                   in (None, finish_item e s4))))"

text \<open>The \<open>catch\<close> of the loop body: log and wait \<open>ERROR_DELAY\<close>.\<close>

definition run_item :: "env \<Rightarrow> worker \<Rightarrow> worker" where
  "run_item e s =
     (case process_item e s of
        (Some err, s1) \<Rightarrow> sleep (ERROR_DELAY (conf s1)) s1
      | (None, s1) \<Rightarrow> s1)"

text \<open>One pass through the body of \<open>while (this.running && this.processingActive)\<close>.\<close>

definition processQueue_iteration :: "env \<Rightarrow> worker \<Rightarrow> worker" where
  "processQueue_iteration e s =
     (if currentBatch s = [] then
        (let (batch, s1) = claimBatchFromQueue (claim_reply e) s in
         if batch = [] then sleep (EMPTY_QUEUE_DELAY (conf s1)) s1
         else run_item e (s1\<lparr>currentBatch := batch\<rparr>))
      else run_item e s)"

text \<open>
  \<open>processQueue\<close>: the loop runs while both flags are set, meeting \<open>envs 0\<close>,
  \<open>envs 1\<close>, ... in its successive passes. It may run for ever, so it is given fuel:
  the result is the state in which the loop has ended, or the state it has reached,
  still running, when the fuel is spent.
\<close>

datatype loop_result = Exited worker | StillRunning worker

fun processQueue :: "nat \<Rightarrow> (nat \<Rightarrow> env) \<Rightarrow> worker \<Rightarrow> loop_result" where
  "processQueue 0 envs s =
     (if running s \<and> processingActive s then StillRunning s else Exited s)"
| "processQueue (Suc n) envs s =
     (if running s \<and> processingActive s
      then processQueue n (\<lambda>k. envs (Suc k)) (processQueue_iteration (envs 0) s)
      else Exited s)"

text \<open>How many complete requests and how many release requests in a history name an
  item, and which items the queue server has taken back.\<close>

fun completes_of :: "string \<Rightarrow> effect list \<Rightarrow> nat" where
  "completes_of i [] = 0"
| "completes_of i (QueueComplete ids ok # xs) =
     (if i \<in> set ids then 1 else 0) + completes_of i xs"
| "completes_of i (x # xs) = completes_of i xs"

fun releases_of :: "string \<Rightarrow> effect list \<Rightarrow> nat" where
  "releases_of i [] = 0"
| "releases_of i (QueueRelease ids ok # xs) =
     (if i \<in> set ids then 1 else 0) + releases_of i xs"
| "releases_of i (x # xs) = releases_of i xs"

fun released_ids :: "effect list \<Rightarrow> string list" where
  "released_ids [] = []"
| "released_ids (QueueRelease ids ok # xs) = (if ok then ids else []) @ released_ids xs"
| "released_ids (x # xs) = released_ids xs"

text \<open>The state a \<open>FilterService\<close> and its \<open>ConnectionManager\<close> have after their
  constructors, for a given configuration, fallback file and clock reading. The
  cooldown fields are filled by \<open>loadCooldownState\<close>, which the constructor starts;
  until then they are shown as 0.\<close>

definition new_worker :: "config \<Rightarrow> file_content \<Rightarrow> int \<Rightarrow> worker" where
  "new_worker c f t =
     \<lparr>lastBanTime = 0, totalBanCount = 0, cooldownLevel = 0,
      gcConnectionAttempts = 0, lastGcConnectionTime = 0, connectionTimer = None,
      recoveryInProgress = False, cooldownStateManager = new_store f,
      running = False, processingActive = False, currentBatch = [], currentItem = None,
      currentSteamID = None, failureStats = Map.empty, requestCount = 0,
      consecutiveTimeouts = 0, lastSuccessTime = t, isBanned = False, banEndTime = None,
      steamID = False, conf = c, effects = [], started = [], timeouts = []\<rparr>"

text \<open>An outside world in which every request succeeds and every profile passes.\<close>

definition calm :: env where
  "calm = \<lparr>now = 1000000, shutdown_now = 1002000,
           claim_reply = Response 200 (Some (True, Some [])),
           fetch = (\<lambda>k. ProfileReply (Some (ProfileData [874, 1, 2] 0 0 0))),
           mark_reply = (\<lambda>k. Response 200 (Some (True, ()))),
           add_reply = Response 200 (Some (True, ())),
           complete_reply = Response 200 (Some (True, ())),
           release_reply = Response 200 (Some (True, ())),
           stop_batch_reply = Response 200 (Some (True, ())),
           stop_item_reply = Response 200 (Some (True, ())),
           save_reply = Response 200 (Some (True, ())),
           save_fs_throws = False, gamesPlayed_throws = False, processing_delay = 750\<rparr>"

text \<open>\<open>start()\<close> of the filter service: mark it running and log in to Steam.\<close>

definition start :: "worker \<Rightarrow> worker" where
  "start s =
     (if running s then s
      else s\<lparr>running := True, effects := effects s @ [LogOn]\<rparr>)"


text \<open>Whether the queue server accepts a request.\<close>

definition accepted :: "unit http_outcome \<Rightarrow> bool" where
  "accepted reply = (case makeQueueApiRequest reply of Inr u \<Rightarrow> True | Inl err \<Rightarrow> False)"

text \<open>A stretch of work is quiet when it sends no complete request, takes back no
  release request, and leaves the batch, the item in hand, the failure counters and the
  configuration alone; it is silent when it sends no release request either.\<close>

definition quiet :: "worker \<Rightarrow> worker \<Rightarrow> bool" where
  "quiet s s' \<longleftrightarrow>
     (\<forall>i. completes_of i (effects s') = completes_of i (effects s)
         \<and> releases_of i (effects s) \<le> releases_of i (effects s'))
     \<and> failureStats s' = failureStats s \<and> conf s' = conf s
     \<and> currentBatch s' = currentBatch s \<and> currentItem s' = currentItem s"

definition silent :: "worker \<Rightarrow> worker \<Rightarrow> bool" where
  "silent s s' \<longleftrightarrow>
     (\<forall>i. releases_of i (effects s') = releases_of i (effects s)) \<and> conf s' = conf s"

section \<open>The supervisor (main.js)\<close>

definition CONFIG_COOLDOWN_LEVELS :: "int list" where
  "CONFIG_COOLDOWN_LEVELS = [0, 30, 60, 120, 240, 480]"

text \<open>The names bound at the top level of main.js. Calling a name that is neither
  bound there nor a global of the runtime throws a \<open>ReferenceError\<close>.\<close>

definition main_js_bindings :: "string list" where
  "main_js_bindings =
     [''fs'', ''path'', ''crypto'', ''FilterService'', ''CooldownStateManager'', ''CONFIG'',
      ''initializeEnvironment'', ''delay'', ''logToFile'', ''loadCooldownStateAsync'',
      ''calculateCooldownEndTime'', ''getRemainingCooldownTime'', ''getCooldownLevelInfo'',
      ''GCFilterWorker'']"

definition resolve_binding :: "string \<Rightarrow> js_error + unit" where
  "resolve_binding name =
     (if name \<in> set main_js_bindings then Inr () else Inl (ReferenceError name))"

definition calculateCooldownEndTime :: "cooldown_state \<Rightarrow> int" where
  "calculateCooldownEndTime cooldownState =
     (if lastBanTime cooldownState = 0 \<or> cooldownLevel cooldownState = 0 then 0
      else
        let i = cooldownLevel cooldownState;
            cooldownMinutes =
              (if 0 \<le> i \<and> i < int (length CONFIG_COOLDOWN_LEVELS)
               then CONFIG_COOLDOWN_LEVELS ! nat i else 0)
        in lastBanTime cooldownState + cooldownMinutes * 60 * 1000)"

definition getRemainingCooldownTime :: "int \<Rightarrow> cooldown_state \<Rightarrow> int" where
  "getRemainingCooldownTime date_now cooldownState =
     max 0 (calculateCooldownEndTime cooldownState - date_now)"

text \<open>What \<open>detectManualRestart\<close> reads from the process.\<close>

record process_info =
  RESET_COOLDOWN :: bool
  reset_cooldown_arg :: bool
  INVOCATION_ID :: bool
  ppid :: nat

definition detectManualRestart :: "process_info \<Rightarrow> bool" where
  "detectManualRestart p =
     (if RESET_COOLDOWN p then True
      else if reset_cooldown_arg p then True
      else if INVOCATION_ID p \<or> ppid p = 1 then True
      else False)"

text \<open>
  \<open>GCFilterWorker\<close>. Its \<open>running\<close> and \<open>cooldownStateManager\<close> fields carry the
  suffix \<open>_main\<close>, the worker record having fields of the same names.
  \<open>filterRestartTimer\<close> holds the delay of the timer it refers to,
  \<open>monitor_interval\<close> the period of the health check once it is set up, and
  \<open>scheduled\<close> the other callbacks handed to \<open>setTimeout\<close>, with their delays.
\<close>

datatype main_task = StartIfIdle | StartIfRunning | ProcessExit

record supervisor =
  running_main :: bool
  filterWorkerRunning :: bool
  filterWorker :: "worker option"
  filterRestartTimer :: "int option"
  cooldownStateManager_main :: cooldown_store
  monitor_interval :: "nat option"
  scheduled :: "(nat \<times> main_task) list"

record main_env =
  process :: process_info
  date_now :: int
  load_reply :: "cooldown_state option http_outcome"
  clear_reply :: "unit http_outcome"
  file_throws :: bool
  construct :: "js_error + worker"
  worker_env :: env

definition new_supervisor :: "file_content \<Rightarrow> supervisor" where
  "new_supervisor f =
     \<lparr>running_main = False, filterWorkerRunning = False, filterWorker = None,
      filterRestartTimer = None, cooldownStateManager_main = new_store f,
      monitor_interval = None, scheduled = []\<rparr>"

definition scheduleFilterRestart :: "int \<Rightarrow> supervisor \<Rightarrow> supervisor" where
  "scheduleFilterRestart delayMs s = s\<lparr>filterRestartTimer := Some delayMs\<rparr>"

text \<open>\<open>startFilterWorker\<close>: \<open>new FilterService()\<close> either throws (the restart is then
  scheduled a minute later) or gives a worker, which is started.\<close>

definition startFilterWorker :: "main_env \<Rightarrow> supervisor \<Rightarrow> supervisor" where
  "startFilterWorker m s =
     (if filterWorkerRunning s then s
      else case construct m of
             Inr w \<Rightarrow> s\<lparr>filterWorker := Some (start w), filterWorkerRunning := True\<rparr>
           | Inl err \<Rightarrow> scheduleFilterRestart 60000 s)"

text \<open>The callback that \<open>scheduleFilterRestart\<close> hands to \<open>setTimeout\<close>: it calls
  \<open>loadCooldownState()\<close>, logs, and calls \<open>startFilterWorker\<close>.\<close>

definition restart_timer_callback :: "main_env \<Rightarrow> supervisor \<Rightarrow> js_error + supervisor" where
  "restart_timer_callback m s =
     (case resolve_binding ''loadCooldownState'' of
        Inl err \<Rightarrow> Inl err
      | Inr u \<Rightarrow> Inr (startFilterWorker m s))"

definition shutdown :: "main_env \<Rightarrow> supervisor \<Rightarrow> supervisor" where
  "shutdown m s =
     (if \<not> running_main s then s
      else
        let s1 = s\<lparr>running_main := False\<rparr>;
            s2 = (if filterRestartTimer s1 \<noteq> None then s1\<lparr>filterRestartTimer := None\<rparr> else s1);
            s3 = (case filterWorker s2 of
                    Some w \<Rightarrow> s2\<lparr>filterWorker := Some (stop (worker_env m) w)\<rparr>
                  | None \<Rightarrow> s2)
        in s3\<lparr>filterWorkerRunning := False,
              scheduled := scheduled s3 @ [(1000, ProcessExit)]\<rparr>)"

text \<open>The restart timer fires: the callback runs, and an exception that leaves it
  reaches the \<open>uncaughtException\<close> handler, which calls \<open>shutdown\<close>.\<close>

definition fire_restart_timer :: "main_env \<Rightarrow> supervisor \<Rightarrow> supervisor" where
  "fire_restart_timer m s =
     (case restart_timer_callback m s of
        Inl err \<Rightarrow> shutdown m s
      | Inr s1 \<Rightarrow> s1)"

definition clearCooldownState :: "main_env \<Rightarrow> supervisor \<Rightarrow> supervisor" where
  "clearCooldownState m s =
     s\<lparr>cooldownStateManager_main :=
         clear (clear_reply m) (file_throws m) (cooldownStateManager_main s)\<rparr>"

definition checkAndStartFilterService :: "main_env \<Rightarrow> supervisor \<Rightarrow> supervisor" where
  "checkAndStartFilterService m s =
     (if detectManualRestart (process m) then startFilterWorker m (clearCooldownState m s)
      else
        let (cooldownState, st) = load (load_reply m) (file_throws m) (cooldownStateManager_main s);
            s1 = s\<lparr>cooldownStateManager_main := st\<rparr>;
            remainingCooldown = getRemainingCooldownTime (date_now m) cooldownState
        in if remainingCooldown > 0 then scheduleFilterRestart remainingCooldown s1
           else startFilterWorker m s1)"

definition startFilterWorkerMonitoring :: "supervisor \<Rightarrow> supervisor" where
  "startFilterWorkerMonitoring s = s\<lparr>monitor_interval := Some 30000\<rparr>"

text \<open>\<open>isRunning()\<close> of the filter service.\<close>

definition isRunning :: "worker \<Rightarrow> bool" where
  "isRunning w = (running w \<and> processingActive w)"

text \<open>One tick of the health check, \<open>monitorFilterWorker\<close>.\<close>

definition monitorFilterWorker :: "supervisor \<Rightarrow> supervisor" where
  "monitorFilterWorker s =
     (if \<not> running_main s then s
      else case filterWorker s of
             None \<Rightarrow> s\<lparr>scheduled := scheduled s @ [(2000, StartIfIdle)]\<rparr>
           | Some w \<Rightarrow>
               if \<not> filterWorkerRunning s
               then s\<lparr>scheduled := scheduled s @ [(2000, StartIfIdle)]\<rparr>
               else if \<not> isRunning w \<and> \<not> isBanned w
               then s\<lparr>filterWorkerRunning := False, filterWorker := None,
                      scheduled := scheduled s @ [(5000, StartIfRunning)]\<rparr>
               else s)"

text \<open>The callbacks of the health check when their delay has passed.\<close>

fun run_main_task :: "main_env \<Rightarrow> main_task \<Rightarrow> supervisor \<Rightarrow> supervisor" where
  "run_main_task m StartIfIdle s =
     (if running_main s \<and> \<not> filterWorkerRunning s then startFilterWorker m s else s)"
| "run_main_task m StartIfRunning s =
     (if running_main s then startFilterWorker m s else s)"
| "run_main_task m ProcessExit s = s"

text \<open>\<open>start()\<close> of the supervisor, the configuration file being present.\<close>

definition start_main :: "main_env \<Rightarrow> supervisor \<Rightarrow> supervisor" where
  "start_main m s =
     (if running_main s then s
      else startFilterWorkerMonitoring
             (checkAndStartFilterService m (s\<lparr>running_main := True\<rparr>)))"

section \<open>Concrete inputs\<close>

definition item_A :: work_item where
  "item_A = \<lparr>item_id = ''76561198000000001'', username = ''alice''\<rparr>"

definition item_B :: work_item where
  "item_B = \<lparr>item_id = ''76561198000000002'', username = ''bob''\<rparr>"

text \<open>A worker that is logged on and processing, with \<open>item_A\<close> next in its batch.\<close>

definition busy_worker :: worker where
  "busy_worker = (new_worker CONFIG NoFile 0)
     \<lparr>running := True, processingActive := True, steamID := True, currentBatch := [item_A]\<rparr>"

text \<open>An outside world in which every profile request times out and every queue
  request fails.\<close>

definition storm :: env where
  "storm = calm\<lparr>fetch := (\<lambda>k. FetchTimeout), claim_reply := RequestTimeout,
                 add_reply := RequestTimeout, complete_reply := RequestTimeout,
                 release_reply := RequestTimeout, stop_batch_reply := RequestTimeout,
                 stop_item_reply := RequestTimeout\<rparr>"

text \<open>A start of the process twenty seconds before a ban at level 1 (thirty minutes)
  runs out, not a manual restart, with the state in the fallback file and the remote
  store unreachable.\<close>

definition banned_file :: file_content where
  "banned_file = FileState \<lparr>lastBanTime = 1000000, totalBanCount = 1, cooldownLevel = 1\<rparr>"

definition resume_env :: main_env where
  "resume_env =
     \<lparr>process = \<lparr>RESET_COOLDOWN = False, reset_cooldown_arg = False, INVOCATION_ID = False,
                  ppid = 4242\<rparr>,
      date_now = 2780000, load_reply = RequestError, clear_reply = RequestError,
      file_throws = False,
      construct = Inr (loadCooldownState RequestError False
                         (new_worker CONFIG banned_file 2780000)),
      worker_env = calm\<rparr>"

section \<open>Properties of the cooldown store\<close>

lemma apply_store_op_disabled:
  "\<not> useRedis s \<Longrightarrow>
     \<not> useRedis (apply_store_op x s) \<and> remoteCalls (apply_store_op x s) = remoteCalls s"
  by (cases x) (simp_all add: load_def save_def clear_def Let_def)

lemma run_store_ops_disabled:
  "\<not> useRedis s \<Longrightarrow>
     \<not> useRedis (run_store_ops xs s) \<and> remoteCalls (run_store_ops xs s) = remoteCalls s"
proof (induction xs arbitrary: s)
  case Nil
  then show ?case by simp
next
  case (Cons x xs)
  from Cons.prems have step: "\<not> useRedis (apply_store_op x s)"
    and calls: "remoteCalls (apply_store_op x s) = remoteCalls s"
    using apply_store_op_disabled by blast+
  from Cons.IH [OF step] calls show ?case by simp
qed

lemma load_failure_disables:
  "useRedis s \<Longrightarrow> makeApiRequest reply = Inl e \<Longrightarrow> \<not> useRedis (snd (load reply fs_throws s))"
  by (simp add: load_def Let_def)

lemma save_failure_disables:
  "useRedis s \<Longrightarrow> makeApiRequest reply = Inl e \<Longrightarrow> \<not> useRedis (save reply fs_throws st s)"
  by (simp add: save_def Let_def)

text \<open>After a failed remote load or a failed remote save, no later operation of the
  instance sends a request: the history of remote calls stays as the failed call left it.\<close>

lemma degraded_after_failed_load:
  assumes "useRedis s" and "makeApiRequest reply = Inl e"
  shows "remoteCalls (run_store_ops later (snd (load reply fs_throws s))) = remoteCalls s @ [GET]"
proof -
  have "\<not> useRedis (snd (load reply fs_throws s))"
    using assms by (rule load_failure_disables)
  then have "remoteCalls (run_store_ops later (snd (load reply fs_throws s)))
               = remoteCalls (snd (load reply fs_throws s))"
    using run_store_ops_disabled by blast
  also have "\<dots> = remoteCalls s @ [GET]"
    using assms by (simp add: load_def Let_def)
  finally show ?thesis .
qed

lemma degraded_after_failed_save:
  assumes "useRedis s" and "makeApiRequest reply = Inl e"
  shows "remoteCalls (run_store_ops later (save reply fs_throws st s)) = remoteCalls s @ [POST]"
proof -
  have "\<not> useRedis (save reply fs_throws st s)"
    using assms by (rule save_failure_disables)
  then have "remoteCalls (run_store_ops later (save reply fs_throws st s))
               = remoteCalls (save reply fs_throws st s)"
    using run_store_ops_disabled by blast
  also have "\<dots> = remoteCalls s @ [POST]"
    using assms by (simp add: save_def Let_def)
  finally show ?thesis .
qed

text \<open>A remote clear never switches the remote store off, whatever its outcome: a save
  that follows it on a store in remote mode still sends its request.\<close>

lemma clear_keeps_remote_mode:
  "useRedis (clear reply ft s) = useRedis s"
  "useRedis s \<Longrightarrow>
     remoteCalls (save reply' ft' st (clear reply ft s)) = remoteCalls s @ [DELETE, POST]"
  by (simp_all add: clear_def save_def Let_def split: sum.splits)

text \<open>
  Claim C6, as the store implements it. After a remote load or a remote save of a store
  instance has failed, every later load, save and clear of that instance makes no
  remote call: whatever operations follow, the history of remote calls ends with the
  failed request. In particular a save after a failed load sends nothing and writes the
  state to the local file. (A failed remote clear is a different matter, shown below.)
\<close>

theorem C6_degraded_after_failed_load_or_save:
  assumes "useRedis s"
      and "makeApiRequest load_answer = Inl e1"
      and "makeApiRequest save_answer = Inl e2"
  shows "remoteCalls (run_store_ops later (snd (load load_answer ft s))) = remoteCalls s @ [GET]
       \<and> remoteCalls (run_store_ops later (save save_answer ft st s)) = remoteCalls s @ [POST]
       \<and> remoteCalls (save any_answer False st' (snd (load load_answer ft s)))
           = remoteCalls s @ [GET]
       \<and> fallbackFile (save any_answer False st' (snd (load load_answer ft s))) = FileState st'"
proof -
  have d: "\<not> useRedis (snd (load load_answer ft s))"
    using assms(1,2) by (rule load_failure_disables)
  have a: "remoteCalls (save any_answer False st' (snd (load load_answer ft s)))
             = remoteCalls (snd (load load_answer ft s))"
    using d by (simp add: save_def Let_def)
  have b: "remoteCalls (snd (load load_answer ft s)) = remoteCalls s @ [GET]"
    using assms(1,2) by (simp add: load_def Let_def)
  have c: "fallbackFile (save any_answer False st' (snd (load load_answer ft s))) = FileState st'"
    by (simp add: save_def Let_def)
  from degraded_after_failed_load [OF assms(1,2)] degraded_after_failed_save [OF assms(1,3)]
    a b c show ?thesis by simp
qed

text \<open>On a fresh store: a load that times out, then a save, a clear and a load; and a
  save that fails, then another save.\<close>

theorem C6_degraded_after_failed_load_or_save_witness:
  "useRedis (new_store NoFile)
   \<and> makeApiRequest (RequestTimeout :: cooldown_state option http_outcome)
       = Inl (Error ''API request timeout'')
   \<and> remoteCalls (run_store_ops
        [OpSave (Response 200 (Some (True, ()))) False zero_state,
         OpClear (Response 200 (Some (True, ()))) False,
         OpLoad (Response 200 (Some (True, None))) False]
        (snd (load RequestTimeout False (new_store NoFile)))) = [GET]
   \<and> remoteCalls (run_store_ops
        [OpSave (Response 200 (Some (True, ()))) False zero_state]
        (save RequestError False zero_state (new_store NoFile))) = [POST]"
proof -
  have u: "useRedis (new_store NoFile)" by (simp add: new_store_def)
  have l: "makeApiRequest (RequestTimeout :: cooldown_state option http_outcome)
             = Inl (Error ''API request timeout'')" by simp
  have sv: "makeApiRequest (RequestError :: unit http_outcome)
             = Inl (Error ''API request failed'')" by simp
  show ?thesis
    using C6_degraded_after_failed_load_or_save [OF u l sv,
            of "[OpSave (Response 200 (Some (True, ()))) False zero_state,
                 OpClear (Response 200 (Some (True, ()))) False,
                 OpLoad (Response 200 (Some (True, None))) False]" False]
          C6_degraded_after_failed_load_or_save [OF u l sv,
            of "[OpSave (Response 200 (Some (True, ()))) False zero_state]" False zero_state]
          u l
    by (simp add: new_store_def)
qed

text \<open>
  The claim as written speaks of any failed remote operation. A failed remote clear
  leaves \<open>useRedis\<close> set: on a fresh store, a clear whose DELETE request times out is
  followed by a save that still sends its POST request.
\<close>

theorem C6_failed_clear_keeps_remote:
  "remoteCalls (save (Response 200 (Some (True, ()))) False zero_state
                  (clear RequestTimeout False (new_store NoFile))) = [DELETE, POST]
   \<and> useRedis (clear RequestTimeout False (new_store NoFile))"
  by (simp add: save_def clear_def new_store_def Let_def)

section \<open>Properties of the connection manager\<close>

lemma releaseToFilterQueue_cooldown:
  "lastBanTime (releaseToFilterQueue r ids s) = lastBanTime s"
  "totalBanCount (releaseToFilterQueue r ids s) = totalBanCount s"
  "cooldownLevel (releaseToFilterQueue r ids s) = cooldownLevel s"
  by (simp_all add: releaseToFilterQueue_def split: sum.splits)

lemma stop_cooldown:
  "lastBanTime (stop e s) = lastBanTime s"
  "totalBanCount (stop e s) = totalBanCount s"
  "cooldownLevel (stop e s) = cooldownLevel s"
  by (simp_all add: stop_def Let_def clearConnectionTimer_def releaseToFilterQueue_cooldown
        split: option.splits)

lemma performCleanShutdown_cooldown:
  "lastBanTime (performCleanShutdown e m s) = lastBanTime s"
  "totalBanCount (performCleanShutdown e m s) = totalBanCount s"
  "cooldownLevel (performCleanShutdown e m s) = cooldownLevel s"
  by (simp_all add: performCleanShutdown_def Let_def clearConnectionTimer_def sleep_def
        stop_cooldown split: sum.splits)

lemma performCleanShutdown_isBanned: "isBanned (performCleanShutdown e m s)"
  by (simp add: performCleanShutdown_def Let_def split: sum.splits)

lemma handleBanDetected_fields:
  "totalBanCount (handleBanDetected e s) = totalBanCount s + 1"
  "lastBanTime (handleBanDetected e s) = now e"
  "cooldownLevel (handleBanDetected e s)
     = min (cooldownLevel s + 1) (int (length COOLDOWN_LEVELS) - 1)"
  "isBanned (handleBanDetected e s)"
  by (simp_all add: handleBanDetected_def Let_def performCleanShutdown_cooldown
        performCleanShutdown_isBanned saveCooldownState_def)

text \<open>
  Claim C1. For every escalation level L from 0 to the last index of the escalation
  table, a ban detected at level L adds one to \<open>totalBanCount\<close>, sets \<open>lastBanTime\<close>
  to the current time and sets \<open>cooldownLevel\<close> to the smaller of L + 1 and the last
  index; the new level stays within the table.
\<close>

theorem C1_ban_escalates:
  assumes "0 \<le> cooldownLevel s" and "cooldownLevel s \<le> int (length COOLDOWN_LEVELS) - 1"
  shows "totalBanCount (handleBanDetected e s) = totalBanCount s + 1
       \<and> lastBanTime (handleBanDetected e s) = now e
       \<and> cooldownLevel (handleBanDetected e s)
            = min (cooldownLevel s + 1) (int (length COOLDOWN_LEVELS) - 1)
       \<and> 0 \<le> cooldownLevel (handleBanDetected e s)
       \<and> cooldownLevel (handleBanDetected e s) \<le> int (length COOLDOWN_LEVELS) - 1"
  using assms by (simp add: handleBanDetected_fields COOLDOWN_LEVELS_def)

text \<open>A ban detected at level 2 at time 1000000.\<close>

theorem C1_ban_escalates_witness:
  "cooldownLevel (busy_worker\<lparr>cooldownLevel := 2\<rparr>) = 2
   \<and> totalBanCount (handleBanDetected calm (busy_worker\<lparr>cooldownLevel := 2\<rparr>)) = 1
   \<and> lastBanTime (handleBanDetected calm (busy_worker\<lparr>cooldownLevel := 2\<rparr>)) = 1000000
   \<and> cooldownLevel (handleBanDetected calm (busy_worker\<lparr>cooldownLevel := 2\<rparr>)) = 3"
  using C1_ban_escalates [of "busy_worker\<lparr>cooldownLevel := 2\<rparr>" calm]
  by (simp add: busy_worker_def new_worker_def COOLDOWN_LEVELS_def calm_def)

text \<open>
  Claim C8. When the connection timer fires and the attempt counter becomes 1, the
  connection manager makes one lightweight reconnection and does not escalate: it
  waits five seconds, issues the connect command again and restarts the timer, and the
  cooldown level, the ban count and the banned flag stay as they were. When the
  lightweight reconnection fails (Steam is not logged on, or the connect command
  throws), and on every later timeout, it declares a ban: the ban handler runs, the ban
  count grows by one and the worker is marked banned.
\<close>

theorem C8_first_timeout_reconnects_once:
  "(gcConnectionAttempts s = 0 \<and> steamID s \<and> \<not> gamesPlayed_throws e \<longrightarrow>
      handleConnectionTimeout e s
        = s\<lparr>gcConnectionAttempts := 1, processingActive := False,
             effects := effects s @ [Sleep 5000, GamesPlayed],
             connectionTimer := Some (if GC_CONNECTION_TIMEOUT (conf s) = 0 then 120000
                                      else GC_CONNECTION_TIMEOUT (conf s))\<rparr>
      \<and> cooldownLevel (handleConnectionTimeout e s) = cooldownLevel s
      \<and> totalBanCount (handleConnectionTimeout e s) = totalBanCount s
      \<and> isBanned (handleConnectionTimeout e s) = isBanned s)
   \<and> (gcConnectionAttempts s = 0 \<and> \<not> steamID s \<longrightarrow>
        handleConnectionTimeout e s = handleBanDetected e (s\<lparr>gcConnectionAttempts := 1\<rparr>)
        \<and> totalBanCount (handleConnectionTimeout e s) = totalBanCount s + 1
        \<and> isBanned (handleConnectionTimeout e s))
   \<and> (gcConnectionAttempts s = 0 \<and> steamID s \<and> gamesPlayed_throws e \<longrightarrow>
        handleConnectionTimeout e s
          = handleBanDetected e
              (sleep 5000 (s\<lparr>gcConnectionAttempts := 1, processingActive := False\<rparr>))
        \<and> totalBanCount (handleConnectionTimeout e s) = totalBanCount s + 1
        \<and> isBanned (handleConnectionTimeout e s))
   \<and> (gcConnectionAttempts s \<noteq> 0 \<longrightarrow>
        handleConnectionTimeout e s
          = handleBanDetected e (s\<lparr>gcConnectionAttempts := gcConnectionAttempts s + 1\<rparr>)
        \<and> totalBanCount (handleConnectionTimeout e s) = totalBanCount s + 1
        \<and> isBanned (handleConnectionTimeout e s))"
  by (simp add: handleConnectionTimeout_def attemptSimpleGcReconnection_def Let_def sleep_def
        startConnectionTimer_def clearConnectionTimer_def handleBanDetected_fields)

text \<open>The four cases on a logged-on worker: a first timeout; a first timeout with Steam
  logged off; a first timeout whose connect command throws; a second timeout.\<close>

theorem C8_first_timeout_reconnects_once_witness:
  "gcConnectionAttempts busy_worker = 0 \<and> steamID busy_worker \<and> \<not> gamesPlayed_throws calm
   \<and> effects (handleConnectionTimeout calm busy_worker) = [Sleep 5000, GamesPlayed]
   \<and> connectionTimer (handleConnectionTimeout calm busy_worker) = Some 120000
   \<and> gcConnectionAttempts (handleConnectionTimeout calm busy_worker) = 1
   \<and> cooldownLevel (handleConnectionTimeout calm busy_worker) = 0
   \<and> \<not> isBanned (handleConnectionTimeout calm busy_worker)
   \<and> isBanned (handleConnectionTimeout calm (busy_worker\<lparr>steamID := False\<rparr>))
   \<and> isBanned (handleConnectionTimeout (calm\<lparr>gamesPlayed_throws := True\<rparr>) busy_worker)
   \<and> isBanned (handleConnectionTimeout calm (busy_worker\<lparr>gcConnectionAttempts := 1\<rparr>))
   \<and> totalBanCount (handleConnectionTimeout calm (busy_worker\<lparr>gcConnectionAttempts := 1\<rparr>)) = 1"
  using C8_first_timeout_reconnects_once [of busy_worker calm]
        C8_first_timeout_reconnects_once [of "busy_worker\<lparr>steamID := False\<rparr>" calm]
        C8_first_timeout_reconnects_once [of busy_worker "calm\<lparr>gamesPlayed_throws := True\<rparr>"]
        C8_first_timeout_reconnects_once [of "busy_worker\<lparr>gcConnectionAttempts := 1\<rparr>" calm]
  by (simp add: busy_worker_def new_worker_def calm_def CONFIG_def handleBanDetected_fields)

text \<open>What the \<open>connectedToGC\<close> handler does to any worker, and what
  \<open>onGcConnected\<close> would do.\<close>

lemma on_connectedToGC_keeps_level:
  "cooldownLevel (on_connectedToGC s) = cooldownLevel s
   \<and> cooldownStateManager (on_connectedToGC s) = cooldownStateManager s
   \<and> connectionTimer (on_connectedToGC s) = None
   \<and> gcConnectionAttempts (on_connectedToGC s) = 0"
  by (simp add: on_connectedToGC_def Let_def reset_def clearConnectionTimer_def startProcessing_def)

lemma onGcConnected_resets_level:
  "cooldownLevel s > 0 \<Longrightarrow>
     cooldownLevel (onGcConnected e s) = 0
     \<and> connectionTimer (onGcConnected e s) = None
     \<and> gcConnectionAttempts (onGcConnected e s) = 0
     \<and> cooldownStateManager (onGcConnected e s)
         = save (save_reply e) (save_fs_throws e)
             \<lparr>lastBanTime = lastBanTime s, totalBanCount = totalBanCount s, cooldownLevel = 0\<rparr>
             (cooldownStateManager s)"
  by (simp add: onGcConnected_def Let_def reset_def clearConnectionTimer_def saveCooldownState_def)

text \<open>
  Claim C2. When the \<open>connectedToGC\<close> event arrives while \<open>cooldownLevel\<close> is
  nonzero, the system clears the connection timer, resets the attempt counter, resets
  \<open>cooldownLevel\<close> to 0 and persists the state. The handler of the event does the first
  two only: with the level at 2, a timer running and one attempt counted, the level is
  still 2 afterwards and the store has not been touched. \<open>onGcConnected\<close>, which
  resets and saves the level, is not what the handler calls.
\<close>

theorem C2_connected_event_keeps_level:
  "cooldownLevel (on_connectedToGC
      (busy_worker\<lparr>cooldownLevel := 2, connectionTimer := Some 120000,
                   gcConnectionAttempts := 1, processingActive := False\<rparr>)) = 2
   \<and> cooldownStateManager (on_connectedToGC
      (busy_worker\<lparr>cooldownLevel := 2, connectionTimer := Some 120000,
                   gcConnectionAttempts := 1, processingActive := False\<rparr>)) = new_store NoFile
   \<and> connectionTimer (on_connectedToGC
      (busy_worker\<lparr>cooldownLevel := 2, connectionTimer := Some 120000,
                   gcConnectionAttempts := 1, processingActive := False\<rparr>)) = None
   \<and> gcConnectionAttempts (on_connectedToGC
      (busy_worker\<lparr>cooldownLevel := 2, connectionTimer := Some 120000,
                   gcConnectionAttempts := 1, processingActive := False\<rparr>)) = 0
   \<and> cooldownLevel (onGcConnected calm
      (busy_worker\<lparr>cooldownLevel := 2, connectionTimer := Some 120000,
                   gcConnectionAttempts := 1, processingActive := False\<rparr>)) = 0"
  by (simp add: on_connectedToGC_def onGcConnected_def Let_def reset_def clearConnectionTimer_def
        startProcessing_def saveCooldownState_def busy_worker_def new_worker_def)

text \<open>What the disconnect and error handlers do to any worker.\<close>

lemma on_disconnectedFromGC_no_recovery:
  "on_disconnectedFromGC s = s\<lparr>processingActive := False\<rparr>
   \<and> timeouts (on_disconnectedFromGC s) = timeouts s
   \<and> started (on_disconnectedFromGC s) = started s
   \<and> recoveryInProgress (on_disconnectedFromGC s) = recoveryInProgress s
   \<and> gcConnectionAttempts (on_disconnectedFromGC s) = gcConnectionAttempts s"
  by (simp add: on_disconnectedFromGC_def)

lemma on_steam_error_throws: "on_steam_error s = Inl (TypeError ''handleConnectionError'')"
  by (simp add: on_steam_error_def method_lookup_def ConnectionManager_methods_def)

text \<open>
  Claim C9. On a disconnect or a transport error signalled during processing, the
  system waits a grace delay of 5 to 10 seconds and then begins the recovery path of a
  connection timeout, guarded by the recovery-in-progress flag. On a processing worker
  the handler of \<open>disconnectedFromGC\<close> only clears \<open>processingActive\<close>: no timeout is
  set and no recovery is started. The handler of the Steam \<open>error\<close> event calls a method
  the connection manager does not have, and throws. The connection manager's
  \<open>onGcDisconnected\<close> and \<open>onSteamError\<close>, which set the 5 and 10 second timeouts for
  \<open>startRecovery\<close>, are not what the handlers call.
\<close>

theorem C9_signals_start_no_recovery:
  "timeouts (on_disconnectedFromGC busy_worker) = []
   \<and> started (on_disconnectedFromGC busy_worker) = []
   \<and> effects (on_disconnectedFromGC busy_worker) = []
   \<and> \<not> processingActive (on_disconnectedFromGC busy_worker)
   \<and> on_steam_error busy_worker = Inl (TypeError ''handleConnectionError'')
   \<and> timeouts (onGcDisconnected busy_worker) = [(5000, StartRecovery)]
   \<and> timeouts (onSteamError busy_worker) = [(10000, StartRecovery)]"
  by (simp add: on_disconnectedFromGC_def on_steam_error_def method_lookup_def
        ConnectionManager_methods_def onGcDisconnected_def onSteamError_def Let_def
        clearConnectionTimer_def busy_worker_def new_worker_def)

section \<open>Properties of the processing loop\<close>

lemma completes_of_append: "completes_of i (xs @ ys) = completes_of i xs + completes_of i ys"
  by (induction i xs rule: completes_of.induct) simp_all

lemma releases_of_append: "releases_of i (xs @ ys) = releases_of i xs + releases_of i ys"
  by (induction i xs rule: releases_of.induct) simp_all

lemma released_ids_append: "released_ids (xs @ ys) = released_ids xs @ released_ids ys"
  by (induction xs rule: released_ids.induct) simp_all

lemma quiet_refl: "quiet s s"
  by (simp add: quiet_def)

lemma quiet_trans: "quiet a b \<Longrightarrow> quiet b c \<Longrightarrow> quiet a c"
  unfolding quiet_def by (metis le_trans)

lemma quiet_sleep: "quiet s (sleep ms s)"
  by (simp add: quiet_def sleep_def completes_of_append releases_of_append)

lemma quiet_stop: "quiet s (stop e s)"
  by (simp add: quiet_def stop_def Let_def clearConnectionTimer_def releaseToFilterQueue_def
        completes_of_append releases_of_append split: option.splits sum.splits)

lemma quiet_performCleanShutdown: "quiet s (performCleanShutdown e m s)"
proof -
  let ?s1 = "clearConnectionTimer (s\<lparr>processingActive := False\<rparr>)"
  let ?s2 = "if steamID ?s1 then sleep 2000 (?s1\<lparr>effects := effects ?s1 @ [LogOff]\<rparr>) else ?s1"
  have banned: "\<And>a b x. quiet a b \<Longrightarrow> quiet a (b\<lparr>isBanned := x\<rparr>)"
    by (simp add: quiet_def)
  have ended: "\<And>a b x y. quiet a b \<Longrightarrow> quiet a (b\<lparr>isBanned := x, banEndTime := y\<rparr>)"
    by (simp add: quiet_def)
  have "quiet s ?s2"
    by (simp add: quiet_def sleep_def clearConnectionTimer_def completes_of_append
          releases_of_append)
  then have "quiet s (stop e ?s2)"
    using quiet_stop by (rule quiet_trans)
  then have a: "quiet s ((stop e ?s2)\<lparr>isBanned := True,
                  banEndTime := map_option (\<lambda>m. shutdown_now e + m * 60000) m\<rparr>)"
    by (rule ended)
  have b: "quiet s ((stop e s)\<lparr>isBanned := True\<rparr>)"
    using quiet_stop by (rule banned)
  show ?thesis
    using a b by (simp add: performCleanShutdown_def Let_def split: sum.splits)
qed

lemma quiet_handleBanDetected: "quiet s (handleBanDetected e s)"
proof -
  let ?s3 = "saveCooldownState e
               (s\<lparr>totalBanCount := totalBanCount s + 1, lastBanTime := now e,
                  cooldownLevel := min (cooldownLevel s + 1) (int (length COOLDOWN_LEVELS) - 1)\<rparr>)"
  have "quiet s ?s3" by (simp add: quiet_def saveCooldownState_def)
  then have "quiet s (performCleanShutdown e (level_minutes (cooldownLevel ?s3)) ?s3)"
    using quiet_performCleanShutdown by (rule quiet_trans)
  then show ?thesis
    by (simp add: handleBanDetected_def Let_def saveCooldownState_def)
qed

lemma quiet_attemptSimpleGcReconnection: "quiet s (attemptSimpleGcReconnection e s)"
proof -
  let ?s1 = "sleep 5000 (s\<lparr>processingActive := False\<rparr>)"
  have q1: "quiet s ?s1"
    by (simp add: quiet_def sleep_def completes_of_append releases_of_append)
  then have a: "quiet s (handleBanDetected e ?s1)"
    using quiet_handleBanDetected by (rule quiet_trans)
  have b: "quiet s (startConnectionTimer (?s1\<lparr>effects := effects ?s1 @ [GamesPlayed]\<rparr>))"
    by (simp add: quiet_def sleep_def startConnectionTimer_def clearConnectionTimer_def
          Let_def completes_of_append releases_of_append)
  show ?thesis
    using a b quiet_handleBanDetected [of s e]
    by (simp add: attemptSimpleGcReconnection_def Let_def)
qed

lemma quiet_handleConnectionTimeout: "quiet s (handleConnectionTimeout e s)"
proof -
  let ?s1 = "s\<lparr>gcConnectionAttempts := gcConnectionAttempts s + 1\<rparr>"
  have q1: "quiet s ?s1" by (simp add: quiet_def)
  from q1 have a: "quiet s (attemptSimpleGcReconnection e ?s1)"
    using quiet_attemptSimpleGcReconnection by (rule quiet_trans)
  from q1 have b: "quiet s (handleBanDetected e ?s1)"
    using quiet_handleBanDetected by (rule quiet_trans)
  show ?thesis
    using a b by (auto simp add: handleConnectionTimeout_def Let_def)
qed

lemma quiet_fetch: "quiet s (snd (fetchAndCheckProfile e outcome sid s))"
proof (cases outcome)
  case InvalidSteamID
  then show ?thesis by (simp add: fetchAndCheckProfile_def quiet_refl)
next
  case FetchTimeout
  let ?s2 = "s\<lparr>effects := effects s @ [ProfileRequest sid],
               consecutiveTimeouts := consecutiveTimeouts s + 1\<rparr>"
  have q: "quiet s ?s2"
    by (simp add: quiet_def completes_of_append releases_of_append)
  then have "quiet s (handleConnectionTimeout e ?s2)"
    using quiet_handleConnectionTimeout by (rule quiet_trans)
  with q show ?thesis
    using FetchTimeout by (simp add: fetchAndCheckProfile_def Let_def)
next
  case (ProfileReply profile)
  then show ?thesis
    by (simp add: fetchAndCheckProfile_def Let_def quiet_def completes_of_append
          releases_of_append)
qed


lemma quiet_fetch_attempts:
  "quiet s (snd (fetch_attempts e sid left attempts lastError s))"
proof (induction left arbitrary: attempts lastError s)
  case 0
  show ?case by (simp add: quiet_refl)
next
  case (Suc left)
  obtain r s1 where f: "fetchAndCheckProfile e (fetch e (attempts + 1)) sid s = (r, s1)"
    by (cases "fetchAndCheckProfile e (fetch e (attempts + 1)) sid s")
  have q1: "quiet s s1" using quiet_fetch [of s e "fetch e (attempts + 1)" sid] f by simp
  show ?case
  proof (cases r)
    case (Inl err)
    let ?s2 = "if left > 0 then sleep (ERROR_DELAY (conf s1)) s1 else s1"
    have "quiet s1 ?s2" by (simp add: quiet_sleep quiet_refl)
    with q1 have "quiet s ?s2" by (rule quiet_trans)
    moreover have "quiet ?s2 (snd (fetch_attempts e sid left (attempts + 1) (Some err) ?s2))"
      by (rule Suc.IH)
    ultimately show ?thesis using f Inl by (auto intro: quiet_trans)
  next
    case (Inr res)
    then show ?thesis using f q1 by (cases res) simp
  qed
qed


lemma quiet_mark_attempts: "quiet s (snd (mark_attempts replies sid left attempt s))"
proof (induction left arbitrary: attempt s)
  case 0
  show ?case by (simp add: quiet_refl)
next
  case (Suc left)
  let ?s1 = "s\<lparr>effects := effects s @ [MarkProcessed sid]\<rparr>"
  let ?s2 = "if left > 0 then sleep 2000 ?s1 else ?s1"
  have a: "quiet s ?s1" by (simp add: quiet_def completes_of_append releases_of_append)
  have "quiet ?s1 ?s2" by (simp add: quiet_sleep quiet_refl)
  with a have b: "quiet s ?s2" by (rule quiet_trans)
  have c: "quiet ?s2 (snd (mark_attempts replies sid left (attempt + 1) ?s2))" by (rule Suc.IH)
  from b c have d: "quiet s (snd (mark_attempts replies sid left (attempt + 1) ?s2))"
    by (rule quiet_trans)
  show ?case using a d
    by (auto simp add: Let_def split: sum.splits bool.splits)
qed

lemma quiet_processSteamIDWithRetries:
  "quiet s (snd (processSteamIDWithRetries e sid n s))"
proof -
  obtain r s1 where f: "fetch_attempts e sid n 0 None s = (r, s1)"
    by (cases "fetch_attempts e sid n 0 None s")
  obtain m s2 where g: "markSteamIdProcessedWithRetries (mark_reply e) sid s1 = (m, s2)"
    by (cases "markSteamIdProcessedWithRetries (mark_reply e) sid s1")
  have "quiet s s1" using quiet_fetch_attempts [of s e sid n 0 None] f by simp
  moreover have "quiet s1 s2"
    using quiet_mark_attempts [of s1 "mark_reply e" sid 3 1] g
    by (simp add: markSteamIdProcessedWithRetries_def)
  ultimately have "quiet s s2" by (rule quiet_trans)
  then show ?thesis using f g by (simp add: processSteamIDWithRetries_def)
qed


text \<open>While the count of consecutive timeouts stays below the threshold, the connection
  manager is not called and the retries send no release request.\<close>

lemma silent_refl: "silent s s"
  by (simp add: silent_def)

lemma silent_trans: "silent a b \<Longrightarrow> silent b c \<Longrightarrow> silent a c"
  by (simp add: silent_def)

lemma silent_sleep: "silent s (sleep ms s)"
  by (simp add: silent_def sleep_def releases_of_append)

lemma silent_fetch:
  "consecutiveTimeouts s + 1 < MAX_CONSECUTIVE_TIMEOUTS (conf s) \<Longrightarrow>
     silent s (snd (fetchAndCheckProfile e outcome sid s))
     \<and> consecutiveTimeouts (snd (fetchAndCheckProfile e outcome sid s))
         \<le> consecutiveTimeouts s + 1"
  by (cases outcome)
     (simp_all add: silent_def fetchAndCheckProfile_def Let_def releases_of_append)

lemma silent_fetch_attempts:
  "consecutiveTimeouts s + left < MAX_CONSECUTIVE_TIMEOUTS (conf s) \<Longrightarrow>
     silent s (snd (fetch_attempts e sid left attempts lastError s))"
proof (induction left arbitrary: attempts lastError s)
  case 0
  show ?case by (simp add: silent_refl)
next
  case (Suc left)
  obtain r s1 where f: "fetchAndCheckProfile e (fetch e (attempts + 1)) sid s = (r, s1)"
    by (cases "fetchAndCheckProfile e (fetch e (attempts + 1)) sid s")
  have one: "consecutiveTimeouts s + 1 < MAX_CONSECUTIVE_TIMEOUTS (conf s)"
    using Suc.prems by simp
  have q1: "silent s s1" and c1: "consecutiveTimeouts s1 \<le> consecutiveTimeouts s + 1"
    using silent_fetch [OF one, of e "fetch e (attempts + 1)" sid] f by simp_all
  have k1: "conf s1 = conf s" using q1 by (simp add: silent_def)
  show ?case
  proof (cases r)
    case (Inl err)
    let ?s2 = "if left > 0 then sleep (ERROR_DELAY (conf s1)) s1 else s1"
    have "silent s1 ?s2" by (simp add: silent_sleep silent_refl)
    with q1 have q2: "silent s ?s2" by (rule silent_trans)
    have "consecutiveTimeouts ?s2 + left < MAX_CONSECUTIVE_TIMEOUTS (conf ?s2)"
      using Suc.prems c1 k1 by (simp add: sleep_def)
    then have "silent ?s2 (snd (fetch_attempts e sid left (attempts + 1) (Some err) ?s2))"
      by (rule Suc.IH)
    with q2 show ?thesis using f Inl by (auto intro: silent_trans)
  next
    case (Inr res)
    then show ?thesis using f q1 by (cases res) simp
  qed
qed

lemma silent_mark_attempts: "silent s (snd (mark_attempts replies sid left attempt s))"
proof (induction left arbitrary: attempt s)
  case 0
  show ?case by (simp add: silent_refl)
next
  case (Suc left)
  let ?s1 = "s\<lparr>effects := effects s @ [MarkProcessed sid]\<rparr>"
  let ?s2 = "if left > 0 then sleep 2000 ?s1 else ?s1"
  have a: "silent s ?s1" by (simp add: silent_def releases_of_append)
  have "silent ?s1 ?s2" by (simp add: silent_sleep silent_refl)
  with a have b: "silent s ?s2" by (rule silent_trans)
  have c: "silent ?s2 (snd (mark_attempts replies sid left (attempt + 1) ?s2))" by (rule Suc.IH)
  from b c have d: "silent s (snd (mark_attempts replies sid left (attempt + 1) ?s2))"
    by (rule silent_trans)
  show ?case using a d
    by (auto simp add: Let_def split: sum.splits bool.splits)
qed

lemma silent_processSteamIDWithRetries:
  assumes "consecutiveTimeouts s + n < MAX_CONSECUTIVE_TIMEOUTS (conf s)"
  shows "silent s (snd (processSteamIDWithRetries e sid n s))"
proof -
  obtain r s1 where f: "fetch_attempts e sid n 0 None s = (r, s1)"
    by (cases "fetch_attempts e sid n 0 None s")
  obtain m s2 where g: "markSteamIdProcessedWithRetries (mark_reply e) sid s1 = (m, s2)"
    by (cases "markSteamIdProcessedWithRetries (mark_reply e) sid s1")
  have "silent s s1" using silent_fetch_attempts [OF assms, of e sid 0 None] f by simp
  moreover have "silent s1 s2"
    using silent_mark_attempts [of s1 "mark_reply e" sid 3 1] g
    by (simp add: markSteamIdProcessedWithRetries_def)
  ultimately have "silent s s2" by (rule silent_trans)
  then show ?thesis using f g by (simp add: processSteamIDWithRetries_def)
qed




text \<open>Each kind of failure of the claim request makes \<open>makeQueueApiRequest\<close> reject.\<close>

lemma claim_errors_reject:
  "\<exists>err. makeQueueApiRequest (RequestError :: 'a http_outcome) = Inl err"
  "\<exists>err. makeQueueApiRequest (RequestTimeout :: 'a http_outcome) = Inl err"
  "status \<noteq> 200 \<Longrightarrow> \<exists>err. makeQueueApiRequest (Response status body) = Inl err"
  "\<exists>err. makeQueueApiRequest (Response status None) = Inl err"
  by (cases body; auto)+

text \<open>One pass with an empty local batch and a failing claim request.\<close>

lemma failed_claim_pass:
  assumes "makeQueueApiRequest (claim_reply e) = Inl err" and "currentBatch s = []"
  shows "processQueue_iteration e s
           = s\<lparr>effects := effects s @ [QueueClaim, Sleep (EMPTY_QUEUE_DELAY (conf s))]\<rparr>"
  using assms
  by (simp add: claimBatchFromQueue_def processQueue_iteration_def Let_def sleep_def)

lemma failed_claim_passes:
  assumes "currentBatch s = []" and "running s" and "processingActive s"
      and "\<forall>k. k < n \<longrightarrow> (\<exists>err. makeQueueApiRequest (claim_reply (envs k)) = Inl err)"
  shows "processQueue n envs s
           = StillRunning
               (s\<lparr>effects := effects s
                    @ concat (replicate n [QueueClaim, Sleep (EMPTY_QUEUE_DELAY (conf s))])\<rparr>)"
  using assms
proof (induction n arbitrary: envs s)
  case 0
  then show ?case by simp
next
  case (Suc n)
  let ?d = "EMPTY_QUEUE_DELAY (conf s)"
  let ?s1 = "s\<lparr>effects := effects s @ [QueueClaim, Sleep ?d]\<rparr>"
  obtain err where h: "makeQueueApiRequest (claim_reply (envs 0)) = Inl err"
    using Suc.prems(4) by auto
  have pass: "processQueue_iteration (envs 0) s = ?s1"
    using failed_claim_pass [OF h Suc.prems(1)] .
  have later: "\<forall>k. k < n \<longrightarrow>
                 (\<exists>err. makeQueueApiRequest (claim_reply (envs (Suc k))) = Inl err)"
    using Suc.prems(4) by auto
  have "processQueue n (\<lambda>k. envs (Suc k)) ?s1
          = StillRunning
              (?s1\<lparr>effects := effects ?s1
                     @ concat (replicate n [QueueClaim, Sleep (EMPTY_QUEUE_DELAY (conf ?s1))])\<rparr>)"
    using Suc.prems(1,2,3) later by (intro Suc.IH) simp_all
  then show ?case
    using Suc.prems(2,3) pass by simp
qed

text \<open>
  Claim C10. Whatever error the claim request raises, \<open>claimBatchFromQueue\<close> returns
  the empty list and lets no error out. A pass of the loop that starts with an empty
  local batch then does exactly what it does on a drained queue: it sends the claim,
  sleeps \<open>EMPTY_QUEUE_DELAY\<close> and changes nothing else. The loop goes on: while the
  claim requests keep failing, with whatever errors, after any number \<open>n\<close> of passes
  the loop is still running, has sent \<open>n\<close> claims with a sleep after each, and has
  changed nothing else.
\<close>

theorem C10_claim_failure_is_empty_queue:
  assumes "makeQueueApiRequest (claim_reply e) = Inl err"
  shows "fst (claimBatchFromQueue (claim_reply e) s) = []
       \<and> (currentBatch s = [] \<longrightarrow>
            processQueue_iteration e s
              = s\<lparr>effects := effects s @ [QueueClaim, Sleep (EMPTY_QUEUE_DELAY (conf s))]\<rparr>
            \<and> processQueue_iteration e s
              = processQueue_iteration (e\<lparr>claim_reply := Response 200 (Some (True, Some []))\<rparr>) s)
       \<and> (currentBatch s = [] \<and> running s \<and> processingActive s
            \<and> (\<forall>k. k < n \<longrightarrow>
                  (\<exists>err. makeQueueApiRequest (claim_reply (envs k)) = Inl err)) \<longrightarrow>
            processQueue n envs s
              = StillRunning
                  (s\<lparr>effects := effects s
                       @ concat (replicate n [QueueClaim, Sleep (EMPTY_QUEUE_DELAY (conf s))])\<rparr>))"
proof -
  have one: "fst (claimBatchFromQueue (claim_reply e) s) = []"
    using assms by (simp add: claimBatchFromQueue_def Let_def)
  have two: "currentBatch s = [] \<longrightarrow>
            processQueue_iteration e s
              = s\<lparr>effects := effects s @ [QueueClaim, Sleep (EMPTY_QUEUE_DELAY (conf s))]\<rparr>
            \<and> processQueue_iteration e s
              = processQueue_iteration (e\<lparr>claim_reply := Response 200 (Some (True, Some []))\<rparr>) s"
    using assms
    by (simp add: claimBatchFromQueue_def processQueue_iteration_def Let_def sleep_def)
  have three: "currentBatch s = [] \<and> running s \<and> processingActive s
            \<and> (\<forall>k. k < n \<longrightarrow>
                  (\<exists>err. makeQueueApiRequest (claim_reply (envs k)) = Inl err)) \<longrightarrow>
            processQueue n envs s
              = StillRunning
                  (s\<lparr>effects := effects s
                       @ concat (replicate n [QueueClaim, Sleep (EMPTY_QUEUE_DELAY (conf s))])\<rparr>)"
  proof
    assume a: "currentBatch s = [] \<and> running s \<and> processingActive s
                 \<and> (\<forall>k. k < n \<longrightarrow>
                       (\<exists>err. makeQueueApiRequest (claim_reply (envs k)) = Inl err))"
    then show "processQueue n envs s
              = StillRunning
                  (s\<lparr>effects := effects s
                       @ concat (replicate n [QueueClaim, Sleep (EMPTY_QUEUE_DELAY (conf s))])\<rparr>)"
      by (intro failed_claim_passes) simp_all
  qed
  from one two three show ?thesis by blast
qed

text \<open>The claim request times out for a worker whose local batch is empty, in one pass
  and in three passes of the loop.\<close>

theorem C10_claim_failure_is_empty_queue_witness:
  "makeQueueApiRequest (claim_reply storm) = Inl (Error ''Queue API request timeout'')
   \<and> processQueue_iteration storm (busy_worker\<lparr>currentBatch := []\<rparr>)
       = busy_worker\<lparr>currentBatch := [], effects := [QueueClaim, Sleep 10000]\<rparr>
   \<and> processQueue 3 (\<lambda>k. storm) (busy_worker\<lparr>currentBatch := []\<rparr>)
       = StillRunning
           (busy_worker\<lparr>currentBatch := [],
              effects := [QueueClaim, Sleep 10000, QueueClaim, Sleep 10000,
                          QueueClaim, Sleep 10000]\<rparr>)"
proof -
  have h: "makeQueueApiRequest (claim_reply storm) = Inl (Error ''Queue API request timeout'')"
    by (simp add: storm_def)
  let ?w = "busy_worker\<lparr>currentBatch := []\<rparr>"
  have pre: "currentBatch ?w = [] \<and> running ?w \<and> processingActive ?w
               \<and> (\<forall>k. k < 3 \<longrightarrow>
                     (\<exists>err. makeQueueApiRequest (claim_reply ((\<lambda>k. storm) k)) = Inl err))"
    by (simp add: busy_worker_def new_worker_def storm_def)
  note t = C10_claim_failure_is_empty_queue [OF h, of ?w 3 "\<lambda>k. storm"]
  from t pre have pass: "processQueue_iteration storm ?w
      = ?w\<lparr>effects := effects ?w @ [QueueClaim, Sleep (EMPTY_QUEUE_DELAY (conf ?w))]\<rparr>"
    by blast
  from t pre have loop: "processQueue 3 (\<lambda>k. storm) ?w
      = StillRunning
          (?w\<lparr>effects := effects ?w
                 @ concat (replicate 3 [QueueClaim, Sleep (EMPTY_QUEUE_DELAY (conf ?w))])\<rparr>)"
    by blast
  have three: "\<And>a b. concat (replicate 3 [a, b]) = [a, b, a, b, a, b]"
    by (simp add: numeral_3_eq_3)
  have d: "EMPTY_QUEUE_DELAY (conf busy_worker) = 10000" and e0: "effects busy_worker = []"
    by (simp_all add: busy_worker_def new_worker_def CONFIG_def)
  from h pass loop show ?thesis
    by (simp add: three d e0)
qed

text \<open>When the downstream queue accepts the add request and the consecutive timeouts
  stay below the threshold, the pass that handles an item sends exactly one request
  naming it, a complete or a release.\<close>

lemma item_exactly_one_when_add_accepted:
  assumes batch: "currentBatch s = item # rest"
      and add: "accepted (add_reply e)"
      and below: "consecutiveTimeouts s + MAX_RETRIES (conf s) < MAX_CONSECUTIVE_TIMEOUTS (conf s)"
  shows "completes_of (item_id item) (effects (processQueue_iteration e s))
           + releases_of (item_id item) (effects (processQueue_iteration e s))
         = completes_of (item_id item) (effects s) + releases_of (item_id item) (effects s) + 1"
proof -
  let ?s1 = "s\<lparr>currentBatch := rest, currentItem := Some item\<rparr>"
  let ?i = "item_id item"
  obtain r s2 where p: "processSteamIDWithRetries e ?i (MAX_RETRIES (conf s)) ?s1 = (r, s2)"
    by (cases "processSteamIDWithRetries e ?i (MAX_RETRIES (conf s)) ?s1")
  have "quiet ?s1 s2"
    using quiet_processSteamIDWithRetries [of ?s1 e ?i "MAX_RETRIES (conf s)"] p by simp
  then have c: "completes_of ?i (effects s2) = completes_of ?i (effects s)"
    by (simp add: quiet_def)
  have "consecutiveTimeouts ?s1 + MAX_RETRIES (conf s) < MAX_CONSECUTIVE_TIMEOUTS (conf ?s1)"
    using below by simp
  from silent_processSteamIDWithRetries [OF this, of e ?i] p
  have l: "releases_of ?i (effects s2) = releases_of ?i (effects s)"
    by (simp add: silent_def)
  have run: "processQueue_iteration e s = run_item e s"
    using batch by (simp add: processQueue_iteration_def)
  show ?thesis
  proof (cases r)
    case (Success passed reason)
    then show ?thesis
      using run batch p c l add
      by (simp add: run_item_def process_item_def Let_def addToProcessorQueue_def
            completeInFilterQueue_def finish_item_def sleep_def accepted_def
            completes_of_append releases_of_append split: sum.splits)
  next
    case (Failure err)
    then show ?thesis
      using run batch p c l
      by (simp add: run_item_def process_item_def Let_def releaseToFilterQueue_def
            finish_item_def sleep_def completes_of_append releases_of_append
            split: sum.splits)
  qed
qed

text \<open>
  Claim C4. For every item claimed and then processed, exactly one of complete and
  release is issued for it before the worker goes on to the next item, and no processed
  item ends with neither. For an item that passes the filter while the add request to
  the downstream queue fails, the pass of the loop sends the profile request, the
  marker request and the failed add request, waits \<open>ERROR_DELAY\<close>, and sends neither
  a complete nor a release for the item; the batch is then empty and the next pass
  claims new work.
\<close>

theorem C4_downstream_failure_neither:
  "effects (processQueue_iteration (calm\<lparr>add_reply := RequestTimeout\<rparr>) busy_worker)
     = [ProfileRequest ''76561198000000001'', MarkProcessed ''76561198000000001'',
        ProcessorAdd ''76561198000000001'' ''alice'' False, Sleep 5000]
   \<and> completes_of ''76561198000000001''
       (effects (processQueue_iteration (calm\<lparr>add_reply := RequestTimeout\<rparr>) busy_worker)) = 0
   \<and> releases_of ''76561198000000001''
       (effects (processQueue_iteration (calm\<lparr>add_reply := RequestTimeout\<rparr>) busy_worker)) = 0
   \<and> currentBatch (processQueue_iteration (calm\<lparr>add_reply := RequestTimeout\<rparr>) busy_worker) = []
   \<and> effects (processQueue_iteration calm
               (processQueue_iteration (calm\<lparr>add_reply := RequestTimeout\<rparr>) busy_worker))
     = [ProfileRequest ''76561198000000001'', MarkProcessed ''76561198000000001'',
        ProcessorAdd ''76561198000000001'' ''alice'' False, Sleep 5000,
        QueueClaim, Sleep 10000]"
  by (simp add: processQueue_iteration_def run_item_def process_item_def
        processSteamIDWithRetries_def markSteamIdProcessedWithRetries_def
        fetchAndCheckProfile_def checkProfile_def addToProcessorQueue_def
        claimBatchFromQueue_def sleep_def Let_def
        busy_worker_def new_worker_def item_A_def calm_def CONFIG_def unwantedMedals_def
        numeral_3_eq_3)

lemma stop_effects:
  "running s \<Longrightarrow>
     effects (stop e s) = effects s
       @ (if currentBatch s = [] then []
          else [QueueRelease (map item_id (currentBatch s)) (accepted (stop_batch_reply e))])
       @ (case currentItem s of
            None \<Rightarrow> []
          | Some it \<Rightarrow> [QueueRelease [item_id it] (accepted (stop_item_reply e))])
       @ (if steamID s then [LogOff] else [])"
  by (simp add: stop_def Let_def clearConnectionTimer_def releaseToFilterQueue_def accepted_def
        split: option.splits sum.splits)

text \<open>
  Claim C5, as \<open>stop\<close> implements it. Stopping a running worker sends, before
  \<open>stop\<close> returns, one release request naming every item left in the current batch
  (when there is one) and one naming the item in hand (when there is one), and clears
  both flags. The requests are sent once and not awaited: the items of a request are
  back in the source queue when the server accepts it, and only then.
\<close>

theorem C5_stop_sends_releases:
  assumes "running s"
  shows "effects (stop e s) = effects s
           @ (if currentBatch s = [] then []
              else [QueueRelease (map item_id (currentBatch s)) (accepted (stop_batch_reply e))])
           @ (case currentItem s of
                None \<Rightarrow> []
              | Some it \<Rightarrow> [QueueRelease [item_id it] (accepted (stop_item_reply e))])
           @ (if steamID s then [LogOff] else [])
       \<and> \<not> running (stop e s) \<and> \<not> processingActive (stop e s)
       \<and> (accepted (stop_batch_reply e) \<longrightarrow>
            set (map item_id (currentBatch s)) \<subseteq> set (released_ids (effects (stop e s))))
       \<and> (accepted (stop_item_reply e) \<longrightarrow>
            (case currentItem s of
               None \<Rightarrow> True
             | Some it \<Rightarrow> item_id it \<in> set (released_ids (effects (stop e s)))))"
proof -
  have fl: "\<not> running (stop e s) \<and> \<not> processingActive (stop e s)"
    using assms
    by (simp add: stop_def Let_def clearConnectionTimer_def releaseToFilterQueue_def
          split: option.splits sum.splits)
  have b: "accepted (stop_batch_reply e) \<longrightarrow>
             set (map item_id (currentBatch s)) \<subseteq> set (released_ids (effects (stop e s)))"
    by (auto simp add: stop_effects [OF assms] released_ids_append)
  have c: "accepted (stop_item_reply e) \<longrightarrow>
            (case currentItem s of
               None \<Rightarrow> True
             | Some it \<Rightarrow> item_id it \<in> set (released_ids (effects (stop e s))))"
    by (auto simp add: stop_effects [OF assms] released_ids_append split: option.splits)
  from stop_effects [OF assms] fl b c show ?thesis by blast
qed

text \<open>A running worker with \<open>item_B\<close> left in its batch and \<open>item_A\<close> in hand, stopped
  while the queue server answers.\<close>

theorem C5_stop_sends_releases_witness:
  "running (busy_worker\<lparr>currentBatch := [item_B], currentItem := Some item_A\<rparr>)
   \<and> effects (stop calm (busy_worker\<lparr>currentBatch := [item_B], currentItem := Some item_A\<rparr>))
       = [QueueRelease [''76561198000000002''] True, QueueRelease [''76561198000000001''] True,
          LogOff]"
proof -
  have r: "running (busy_worker\<lparr>currentBatch := [item_B], currentItem := Some item_A\<rparr>)"
    by (simp add: busy_worker_def new_worker_def)
  show ?thesis
    using C5_stop_sends_releases [OF r, of calm] r
    by (simp add: busy_worker_def new_worker_def item_A_def item_B_def calm_def accepted_def)
qed

text \<open>
  The claim as written makes the release a guarantee of \<open>stop\<close>. The same worker
  stopped while the release requests time out: \<open>stop\<close> has returned, the worker is no
  longer running, and no item has gone back to the source queue.
\<close>

theorem C5_release_not_guaranteed:
  "running (busy_worker\<lparr>currentBatch := [item_B], currentItem := Some item_A\<rparr>)
   \<and> \<not> running (stop storm (busy_worker\<lparr>currentBatch := [item_B], currentItem := Some item_A\<rparr>))
   \<and> released_ids
        (effects (stop storm (busy_worker\<lparr>currentBatch := [item_B], currentItem := Some item_A\<rparr>)))
       = []"
  by (simp add: stop_def Let_def clearConnectionTimer_def releaseToFilterQueue_def
        busy_worker_def new_worker_def item_A_def item_B_def storm_def calm_def)

section \<open>Properties of the supervisor\<close>

lemma restart_timer_callback_throws:
  "restart_timer_callback m s = Inl (ReferenceError ''loadCooldownState'')"
  by (simp add: restart_timer_callback_def resolve_binding_def main_js_bindings_def)

lemma fire_restart_timer_is_shutdown: "fire_restart_timer m s = shutdown m s"
  by (simp add: fire_restart_timer_def restart_timer_callback_throws)

lemma deferred_start_at_remaining_time:
  assumes "\<not> running_main s" and "\<not> detectManualRestart (process m)"
      and "getRemainingCooldownTime (date_now m)
             (fst (load (load_reply m) (file_throws m) (cooldownStateManager_main s))) > 0"
  shows "filterRestartTimer (start_main m s)
           = Some (getRemainingCooldownTime (date_now m)
                     (fst (load (load_reply m) (file_throws m) (cooldownStateManager_main s))))
       \<and> filterWorker (start_main m s) = filterWorker s"
  using assms
  by (auto simp add: start_main_def checkAndStartFilterService_def Let_def
        scheduleFilterRestart_def startFilterWorkerMonitoring_def split: prod.splits)

text \<open>The health check does not look at the cooldown: started during a cooldown, the
  supervisor has no worker, so the first tick of the health check queues a start two
  seconds later, and that start creates and starts a worker.\<close>

lemma monitor_starts_worker_during_cooldown:
  "scheduled (monitorFilterWorker (start_main resume_env (new_supervisor banned_file)))
     = [(2000, StartIfIdle)]
   \<and> filterWorkerRunning
       (run_main_task resume_env StartIfIdle
          (monitorFilterWorker (start_main resume_env (new_supervisor banned_file))))"
  by (simp add: start_main_def checkAndStartFilterService_def detectManualRestart_def
        resume_env_def new_supervisor_def banned_file_def new_store_def load_def
        load_from_file_def Let_def getRemainingCooldownTime_def calculateCooldownEndTime_def
        CONFIG_COOLDOWN_LEVELS_def scheduleFilterRestart_def startFilterWorkerMonitoring_def
        monitorFilterWorker_def startFilterWorker_def)

text \<open>
  Claim C3. When the persisted cooldown state has time remaining at startup, the
  supervisor schedules a deferred start at exactly the remaining time, and when that
  timer fires the worker is started again. Started twenty seconds before a ban at
  level 1 runs out, the supervisor sets the restart timer to the remaining 20000 ms and
  starts no worker. When the timer fires, its callback calls \<open>loadCooldownState\<close>, a
  name main.js does not define: the call throws before \<open>startFilterWorker\<close> is
  reached, the exception handler shuts the supervisor down and queues the exit of the
  process, and no worker is running.
\<close>

theorem C3_restart_timer_never_restarts:
  "filterRestartTimer (start_main resume_env (new_supervisor banned_file)) = Some 20000
   \<and> filterWorker (start_main resume_env (new_supervisor banned_file)) = None
   \<and> restart_timer_callback resume_env (start_main resume_env (new_supervisor banned_file))
       = Inl (ReferenceError ''loadCooldownState'')
   \<and> filterWorker (fire_restart_timer resume_env
                      (start_main resume_env (new_supervisor banned_file))) = None
   \<and> \<not> filterWorkerRunning (fire_restart_timer resume_env
                      (start_main resume_env (new_supervisor banned_file)))
   \<and> \<not> running_main (fire_restart_timer resume_env
                      (start_main resume_env (new_supervisor banned_file)))
   \<and> scheduled (fire_restart_timer resume_env
                      (start_main resume_env (new_supervisor banned_file)))
       = [(1000, ProcessExit)]"
  by (simp add: start_main_def checkAndStartFilterService_def detectManualRestart_def
        resume_env_def new_supervisor_def banned_file_def new_store_def load_def
        load_from_file_def Let_def getRemainingCooldownTime_def calculateCooldownEndTime_def
        CONFIG_COOLDOWN_LEVELS_def scheduleFilterRestart_def startFilterWorkerMonitoring_def
        restart_timer_callback_def resolve_binding_def main_js_bindings_def
        fire_restart_timer_def shutdown_def)

end
